theory Spec2Isabelle
  imports Complex_Main "HOL-Library.Log_Nat"
begin

section \<open>JavaScript numbers\<close>

text \<open>
  The scripts mix two numeric types: \<^verbatim>\<open>bigint\<close> (unbounded integers, modelled as
  \<^typ>\<open>int\<close>) and \<^verbatim>\<open>number\<close> (IEEE-754 binary64). A finite double is the rational
  it denotes; every operation on doubles is the exact operation followed by rounding to
  the nearest double, ties to even. Negative zero is identified with zero: no program
  here can tell them apart.
\<close>

datatype number = Finite rat | PosInfinity | NegInfinity | NaN

definition round_half_even :: "rat \<Rightarrow> int" where
  "round_half_even q =
     (let f = \<lfloor>q\<rfloor>; d = q - of_int f
      in if d < 1 / 2 then f else if 1 / 2 < d then f + 1 else if even f then f else f + 1)"

text \<open>The smallest positive double is \<open>2 ^ - emin\<close>; every double is a multiple of it.\<close>

definition emin :: nat where
  "emin = 1074"

text \<open>
  The spacing of the doubles around \<open>a\<close>, as a power of two counted in units of
  \<open>2 ^ - emin\<close>: a 53-bit significand, and spacing one unit in the subnormal range.
\<close>

definition ulp_exponent :: "rat \<Rightarrow> nat" where
  "ulp_exponent a = nat (bitlen \<lfloor>a * 2 ^ emin\<rfloor> - 53)"

definition round_double :: "rat \<Rightarrow> number" where
  "round_double x =
     (let a = \<bar>x\<bar>; e = ulp_exponent a;
          r = of_int (round_half_even (a * 2 ^ emin / 2 ^ e)) * 2 ^ e / 2 ^ emin
      in if 2 ^ 1024 \<le> r then (if 0 < x then PosInfinity else NegInfinity)
         else Finite (sgn x * r))"

text \<open>The sign of a number that is not \<open>NaN\<close>: \<open>1\<close>, \<open>0\<close> or \<open>- 1\<close>.\<close>

fun sign_of :: "number \<Rightarrow> rat" where
  "sign_of (Finite x) = sgn x"
| "sign_of PosInfinity = 1"
| "sign_of NegInfinity = - 1"
| "sign_of NaN = 0"

fun js_neg :: "number \<Rightarrow> number" where
  "js_neg (Finite x) = Finite (- x)"
| "js_neg PosInfinity = NegInfinity"
| "js_neg NegInfinity = PosInfinity"
| "js_neg NaN = NaN"

text \<open>\<^verbatim>\<open>a + b\<close>, \<^verbatim>\<open>a - b\<close>, \<^verbatim>\<open>a * b\<close> and \<^verbatim>\<open>a % b\<close> on numbers.\<close>

fun js_add :: "number \<Rightarrow> number \<Rightarrow> number" where
  "js_add NaN b = NaN"
| "js_add a NaN = NaN"
| "js_add (Finite x) (Finite y) = round_double (x + y)"
| "js_add PosInfinity NegInfinity = NaN"
| "js_add NegInfinity PosInfinity = NaN"
| "js_add PosInfinity b = PosInfinity"
| "js_add NegInfinity b = NegInfinity"
| "js_add a PosInfinity = PosInfinity"
| "js_add a NegInfinity = NegInfinity"

definition js_sub :: "number \<Rightarrow> number \<Rightarrow> number" where
  "js_sub a b = js_add a (js_neg b)"

fun js_mul :: "number \<Rightarrow> number \<Rightarrow> number" where
  "js_mul NaN b = NaN"
| "js_mul a NaN = NaN"
| "js_mul (Finite x) (Finite y) = round_double (x * y)"
| "js_mul a b =
     (if sign_of a * sign_of b = 0 then NaN
      else if 0 < sign_of a * sign_of b then PosInfinity else NegInfinity)"

text \<open>
  The remainder takes the sign of the dividend (the quotient is truncated towards zero)
  and is exact: the result is always a double, so nothing is rounded.
\<close>

definition js_trunc :: "rat \<Rightarrow> int" where
  "js_trunc q = (if 0 \<le> q then \<lfloor>q\<rfloor> else \<lceil>q\<rceil>)"

fun js_rem :: "number \<Rightarrow> number \<Rightarrow> number" where
  "js_rem (Finite x) (Finite y) =
     (if y = 0 then NaN else Finite (x - y * of_int (js_trunc (x / y))))"
| "js_rem (Finite x) PosInfinity = Finite x"
| "js_rem (Finite x) NegInfinity = Finite x"
| "js_rem a b = NaN"

text \<open>
  \<^verbatim>\<open>base ** k\<close> for an exponent that is a natural number, the only shape the scripts
  use (\<^verbatim>\<open>10 ** 18\<close>, \<^verbatim>\<open>10 ** 6\<close>, \<^verbatim>\<open>10 ** allowedDecimalReduction\<close> with a
  \<^verbatim>\<open>uint8\<close>). The language standard only asks for an approximation of the power;
  the model takes the correctly rounded one, which is the exact power whenever that is
  a double (for base ten: up to \<open>10 ^ 22\<close>).
\<close>

definition js_pow :: "rat \<Rightarrow> nat \<Rightarrow> number" where
  "js_pow base k = round_double (base ^ k)"

text \<open>\<^verbatim>\<open>x != 0\<close>: true for \<open>NaN\<close> and for the infinities.\<close>

definition js_ne_zero :: "number \<Rightarrow> bool" where
  "js_ne_zero x = (x \<noteq> Finite 0)"

text \<open>\<^verbatim>\<open>Number(n)\<close> for a bigint \<open>n\<close>: the nearest double.\<close>

definition Number_of_bigint :: "int \<Rightarrow> number" where
  "Number_of_bigint n = round_double (of_int n)"

section \<open>Errors, and computations that call the outside world\<close>

text \<open>
  Every \<^verbatim>\<open>throw\<close> of the scripts is a constructor: \<open>Error msg\<close> is
  \<^verbatim>\<open>new Error(msg)\<close> with a fixed message; \<open>PrecisionError maxDecimals\<close> is
  \<^verbatim>\<open>new Error(`Order amount precision exceeds max decimals of ${maxDecimals}`)\<close>;
  \<open>RangeError\<close> is what \<^verbatim>\<open>BigInt(x)\<close> throws for a number that is not an integer;
  \<open>TimeoutError\<close> is what the bundler client throws when its wait runs out;
  \<open>Failure tag\<close> is any error reported by an external system (HTTP failure, revert,
  node error), told apart by its tag.
\<close>

datatype error =
    Error string
  | PrecisionError number
  | RangeError
  | TimeoutError
  | Failure string

definition BigInt_of_number :: "number \<Rightarrow> error + int" where
  "BigInt_of_number x =
     (case x of
        Finite q \<Rightarrow> if of_int \<lfloor>q\<rfloor> = q then Inr \<lfloor>q\<rfloor> else Inl RangeError
      | _ \<Rightarrow> Inl RangeError)"

type_synonym address = string
type_synonym hex = string

record OrderParams =
  requestTimestamp :: number
  recipient :: address
  assetToken :: address
  paymentToken :: address
  sell :: bool
  orderType :: number
  assetTokenQuantity :: number
  paymentTokenQuantity :: number
  price :: number
  tif :: number

text \<open>
  The pricing service's answer. \<open>fee\<close> is the integer its \<^verbatim>\<open>fee\<close> field denotes; an
  answer on which \<^verbatim>\<open>BigInt(fee)\<close> would throw is represented as a failed request.
\<close>

record FeeQuote =
  orderId :: hex
  requester :: address
  fee :: int
  timestamp :: nat
  deadline :: nat

record FeeQuoteResponse =
  fee_quote :: FeeQuote
  fee_quote_signature :: hex

record PermitDomain =
  domain_name :: string
  domain_version :: string
  domain_chainId :: nat
  verifyingContract :: address

record PermitMessage =
  owner :: address
  spender :: address
  permit_value :: int
  nonce :: nat
  permit_deadline :: number

record Signature =
  sig_v :: nat
  sig_r :: hex
  sig_s :: hex

text \<open>
  Calldata produced by \<^verbatim>\<open>encodeFunctionData\<close>: the function called and its arguments
  (the ABI encoding is injective, so nothing is lost).
\<close>

datatype calldata =
    SelfPermit address address int number nat hex hex
  | CreateOrder OrderParams FeeQuote hex
  | Approve address int
  | Transfer address int

record Transaction =
  tx_to :: address
  tx_data :: calldata
  tx_value :: int

record Log =
  log_address :: address
  topics :: "hex list"
  log_data :: hex

record Receipt =
  transactionHash :: hex
  logs :: "Log list"

text \<open>
  Lines written to the console that report the outcome of a run; the prints of
  intermediate values are left out. \<open>CaughtErrorLine e\<close> is
  \<^verbatim>\<open>console.error("Error:", e)\<close>, \<open>ErrorLine e\<close> is \<^verbatim>\<open>console.error(e)\<close>.
\<close>

datatype console =
    OrderIdLine nat
  | OrderAccountLine address
  | OrderStatusLine nat
  | NoOrderCreatedLine
  | AllLogsLine "Log list"
  | SentTokenHashLine hex
  | CaughtErrorLine error
  | ErrorLine error

text \<open>What a run does to the outside world, in order: every awaited external call with
  its arguments, and the console lines above.\<close>

datatype event =
    GetNetwork
  | SignerToSimpleSmartAccount
  | OrderDecimalReduction address
  | Decimals
  | PostFeeQuote nat address OrderParams
  | Nonces address
  | GetBlockNumber
  | GetBlock nat
  | TokenName
  | TokenVersion
  | SignTypedData PermitDomain PermitMessage
  | Multicall "calldata list"
  | TxWait hex
  | GetOrderStatus nat
  | SendTransactions "Transaction list"
  | WaitForUserOperationReceipt hex nat
  | GetTransactionReceipt hex
  | Console console

text \<open>
  A computation yields the events it caused and either the error it threw or its value.
\<close>

type_synonym 'a io = "event list \<times> (error + 'a)"

definition ret :: "'a \<Rightarrow> 'a io" where
  "ret a = ([], Inr a)"

definition throw :: "error \<Rightarrow> 'a io" where
  "throw e = ([], Inl e)"

definition lift :: "error + 'a \<Rightarrow> 'a io" where
  "lift r = ([], r)"

text \<open>\<^verbatim>\<open>await call(...)\<close>: the call is made, then its answer is the result.\<close>

definition await :: "event \<Rightarrow> error + 'a \<Rightarrow> 'a io" where
  "await ev answer = ([ev], answer)"

definition console_log :: "console \<Rightarrow> unit io" where
  "console_log line = ([Console line], Inr ())"

text \<open>Sequencing: an error ends the computation where it is thrown.\<close>

definition andThen :: "'a io \<Rightarrow> ('a \<Rightarrow> 'b io) \<Rightarrow> 'b io" where
  "andThen m f =
     (case m of
        (t, Inl e) \<Rightarrow> (t, Inl e)
      | (t, Inr a) \<Rightarrow> (case f a of (t', r) \<Rightarrow> (t @ t', r)))"

text \<open>\<^verbatim>\<open>try { m } catch (e) { h(e) }\<close>.\<close>

definition try_catch :: "'a io \<Rightarrow> (error \<Rightarrow> 'a io) \<Rightarrow> 'a io" where
  "try_catch m h =
     (case m of
        (t, Inl e) \<Rightarrow> (case h e of (t', r) \<Rightarrow> (t @ t', r))
      | (t, Inr a) \<Rightarrow> (t, Inr a))"

section \<open>The outside world\<close>

text \<open>
  How the bundler answers the polling for a user-operation receipt: the receipt (its
  transaction hash) is there after so many milliseconds, or never, or polling fails.
\<close>

datatype poll_result = ArrivesAfter nat hex | NeverArrives | PollError error

text \<open>
  The bundler client's \<^verbatim>\<open>waitForUserOperationReceipt({hash, timeout})\<close>, a library
  call: it polls until the receipt is there and throws its timeout error when the
  timeout has passed first.
\<close>

definition waitForUserOperationReceipt :: "poll_result \<Rightarrow> nat \<Rightarrow> error + hex" where
  "waitForUserOperationReceipt p timeout =
     (case p of
        ArrivesAfter t h \<Rightarrow> if t \<le> timeout then Inr h else Inl TimeoutError
      | NeverArrives \<Rightarrow> Inl TimeoutError
      | PollError e \<Rightarrow> Inl e)"

text \<open>
  The environment of one run: the process environment variables, the clock, and the
  answer of every external system to every call the scripts can make. \<open>signerAddress\<close>
  is the address of the wallet built from the private key, \<open>networkAddresses\<close> the
  deployment table of \<^verbatim>\<open>order_processor.json\<close>, \<open>orderCreatedTopic\<close> and \<open>parseLog\<close>
  the order processor's ABI (\<^verbatim>\<open>interface.getEventTopic("OrderCreated")\<close> and
  \<^verbatim>\<open>interface.parseLog\<close>, the latter giving the first two event arguments).
\<close>

record env =
  PRIVATE_KEY_EOA :: "string option"
  PRIVATE_KEY :: "string option"
  RPC_URL :: "string option"
  ASSETTOKEN :: "string option"
  PAYMENTTOKEN :: "string option"
  DINARI_API_KEY :: "string option"
  PIMLICO_API_KEY :: "string option"
  now :: nat
  signerAddress :: address
  networkAddresses :: "nat \<Rightarrow> address"
  orderCreatedTopic :: hex
  parseLog :: "Log \<Rightarrow> error + nat \<times> address"
  splitSignature :: "hex \<Rightarrow> Signature"
  getNetwork :: "error + nat"
  signerToSimpleSmartAccount :: "error + address"
  orderDecimalReduction :: "address \<Rightarrow> error + nat"
  decimals :: "error + nat"
  postFeeQuote :: "nat \<Rightarrow> address \<Rightarrow> OrderParams \<Rightarrow> error + FeeQuoteResponse"
  nonces :: "address \<Rightarrow> error + nat"
  getBlockNumber :: "error + nat"
  getBlock :: "nat \<Rightarrow> error + nat option"
  tokenName :: "error + string"
  tokenVersion :: "error + string"
  signTypedData :: "PermitDomain \<Rightarrow> PermitMessage \<Rightarrow> error + hex"
  multicall :: "calldata list \<Rightarrow> error + hex"
  txWait :: "hex \<Rightarrow> error + Receipt"
  getOrderStatus :: "nat \<Rightarrow> error + nat"
  sendTransactions :: "Transaction list \<Rightarrow> error + hex"
  bundlerPoll :: "hex \<Rightarrow> poll_result"
  getTransactionReceipt :: "hex \<Rightarrow> error + Receipt"

section \<open>Building the order\<close>

text \<open>
  \<^verbatim>\<open>validateSellOrderPrecision\<close>, the same in the three scripts (the third passes its
  constant \<^verbatim>\<open>ASSET_TOKEN_ADDRESS\<close>). Both contract reads return a \<^verbatim>\<open>uint8\<close>, which
  the contract library hands over as a number.
\<close>

definition validateSellOrderPrecision :: "env \<Rightarrow> address \<Rightarrow> int \<Rightarrow> unit io" where
  "validateSellOrderPrecision env assetTokenAddress orderAmount =
     andThen (await (OrderDecimalReduction assetTokenAddress)
                (orderDecimalReduction env assetTokenAddress))
       (\<lambda>allowedDecimalReduction.
     let allowablePrecisionReduction = js_pow 10 allowedDecimalReduction
     in if js_ne_zero (js_rem (Number_of_bigint orderAmount) allowablePrecisionReduction)
        then andThen (await Decimals (decimals env))
               (\<lambda>assetTokenDecimals.
             let maxDecimals = js_sub (Finite (of_nat assetTokenDecimals))
                                 (Finite (of_nat allowedDecimalReduction))
             in throw (PrecisionError maxDecimals))
        else ret ())"

text \<open>\<^verbatim>\<open>configureOrder\<close> of the direct script (the recipient is the signer).\<close>

definition configureOrder_direct :: "env \<Rightarrow> address \<Rightarrow> address \<Rightarrow> OrderParams io" where
  "configureOrder_direct env assetTokenAddress paymentTokenAddress =
     andThen (lift (BigInt_of_number (Finite 1000000)))
       (\<lambda>orderAmount.
     let sellOrder = False; orderType = Finite 0; limitPrice = Finite 0
     in andThen (if sellOrder
                 then validateSellOrderPrecision env assetTokenAddress orderAmount
                 else ret ())
          (\<lambda>_. ret \<lparr> requestTimestamp = Finite (of_nat (now env)),
                      recipient = signerAddress env,
                      assetToken = assetTokenAddress,
                      paymentToken = paymentTokenAddress,
                      sell = sellOrder,
                      orderType = orderType,
                      assetTokenQuantity = Finite 0,
                      paymentTokenQuantity = Number_of_bigint orderAmount,
                      price = limitPrice,
                      tif = Finite 1 \<rparr>))"

text \<open>\<^verbatim>\<open>configureOrder\<close> of the first sponsored script (the recipient is passed in).\<close>

definition configureOrder_sponsored ::
    "env \<Rightarrow> address \<Rightarrow> address \<Rightarrow> address \<Rightarrow> OrderParams io" where
  "configureOrder_sponsored env recipientAddress assetTokenAddress paymentTokenAddress =
     andThen (lift (BigInt_of_number (Finite 1000000)))
       (\<lambda>orderAmount.
     let sellOrder = False; orderType = Finite 0; limitPrice = Finite 0
     in andThen (if sellOrder
                 then validateSellOrderPrecision env assetTokenAddress orderAmount
                 else ret ())
          (\<lambda>_. ret \<lparr> requestTimestamp = Finite (of_nat (now env)),
                      recipient = recipientAddress,
                      assetToken = assetTokenAddress,
                      paymentToken = paymentTokenAddress,
                      sell = sellOrder,
                      orderType = orderType,
                      assetTokenQuantity = Finite 0,
                      paymentTokenQuantity = Number_of_bigint orderAmount,
                      price = limitPrice,
                      tif = Finite 1 \<rparr>))"


definition STOCK_ADDRESSES_NVIDIA :: address where
  "STOCK_ADDRESSES_NVIDIA = ''0x4B47153A241b9d22ae37c2aAEe7A6519fF2Dbfc6''"


definition ASSET_TOKEN_ADDRESS :: address where
  "ASSET_TOKEN_ADDRESS = STOCK_ADDRESSES_NVIDIA"


text \<open>
  \<^verbatim>\<open>configureOrder\<close> of \<^verbatim>\<open>smart_account.ts\<close>: the amount is a parameter, a number
  whose default is \<^verbatim>\<open>100 * 10 ** 6\<close>, and the asset is the constant.
\<close>

definition default_amount :: number where
  "default_amount = js_mul (Finite 100) (js_pow 10 6)"

definition configureOrder_smart_account ::
    "env \<Rightarrow> address \<Rightarrow> address \<Rightarrow> number \<Rightarrow> OrderParams io" where
  "configureOrder_smart_account env recipientAddress paymentTokenAddress amount =
     andThen (lift (BigInt_of_number amount))
       (\<lambda>orderAmount.
     let sellOrder = False; orderType = Finite 0; limitPrice = Finite 0
     in andThen (if sellOrder
                 then validateSellOrderPrecision env ASSET_TOKEN_ADDRESS orderAmount
                 else ret ())
          (\<lambda>_. ret \<lparr> requestTimestamp = Finite (of_nat (now env)),
                      recipient = recipientAddress,
                      assetToken = ASSET_TOKEN_ADDRESS,
                      paymentToken = paymentTokenAddress,
                      sell = sellOrder,
                      orderType = orderType,
                      assetTokenQuantity = Finite 0,
                      paymentTokenQuantity = Number_of_bigint orderAmount,
                      price = limitPrice,
                      tif = Finite 1 \<rparr>))"

section \<open>The fee quote\<close>

text \<open>\<^verbatim>\<open>getFeeQuote\<close>, the same in the three scripts.\<close>

definition getFeeQuote ::
    "env \<Rightarrow> nat \<Rightarrow> address \<Rightarrow> OrderParams \<Rightarrow> (int \<times> FeeQuoteResponse) io" where
  "getFeeQuote env chainId orderProcessorAddress orderParams =
     andThen (await (PostFeeQuote chainId orderProcessorAddress orderParams)
                (postFeeQuote env chainId orderProcessorAddress orderParams))
       (\<lambda>feeQuoteResponse. ret (fee (fee_quote feeQuoteResponse), feeQuoteResponse))"

text \<open>
  The line \<^verbatim>\<open>const totalSpendAmount = BigInt(orderParams.paymentTokenQuantity) + fees\<close>
  of each \<^verbatim>\<open>main\<close>: the quantity is a number, converted back to a bigint, and the sum
  is a sum of bigints.
\<close>

definition computeTotalSpendAmount :: "OrderParams \<Rightarrow> int \<Rightarrow> int io" where
  "computeTotalSpendAmount orderParams fees =
     andThen (lift (BigInt_of_number (paymentTokenQuantity orderParams)))
       (\<lambda>quantity. ret (quantity + fees))"

section \<open>The direct script: permit, multicall, receipt\<close>

definition getContractVersion :: "env \<Rightarrow> string io" where
  "getContractVersion env =
     try_catch (await TokenVersion (tokenVersion env)) (\<lambda>_. ret ''1'')"

text \<open>
  \<^verbatim>\<open>configurePermit\<close>. The answer of \<open>getBlock\<close> is the block's timestamp, \<open>None\<close>
  for no block; \<^verbatim>\<open>!blockTime\<close> also holds for a timestamp of zero.
\<close>

definition configurePermit ::
    "env \<Rightarrow> address \<Rightarrow> address \<Rightarrow> int \<Rightarrow> (PermitDomain \<times> PermitMessage) io" where
  "configurePermit env paymentTokenAddress orderProcessorAddress totalSpendAmount =
     andThen (await (Nonces (signerAddress env)) (nonces env (signerAddress env)))
       (\<lambda>nonce'.
     andThen (await GetBlockNumber (getBlockNumber env))
       (\<lambda>blockNumber.
     andThen (await (GetBlock blockNumber) (getBlock env blockNumber))
       (\<lambda>blockTime.
     if blockTime = None \<or> blockTime = Some 0 then throw (Error ''no block time'')
     else
       let deadline' = js_add (Finite (of_nat (the blockTime))) (js_mul (Finite 60) (Finite 5))
       in andThen (await TokenName (tokenName env))
            (\<lambda>name.
          andThen (getContractVersion env)
            (\<lambda>version.
          andThen (await GetNetwork (getNetwork env))
            (\<lambda>chainId.
          ret (\<lparr> domain_name = name,
                   domain_version = version,
                   domain_chainId = chainId,
                   verifyingContract = paymentTokenAddress \<rparr>,
               \<lparr> owner = signerAddress env,
                   spender = orderProcessorAddress,
                   permit_value = totalSpendAmount,
                   nonce = nonce',
                   permit_deadline = deadline' \<rparr>)))))))"

definition submitOrder ::
    "env \<Rightarrow> calldata \<Rightarrow> OrderParams \<Rightarrow> FeeQuoteResponse \<Rightarrow> Receipt io" where
  "submitOrder env selfPermitData orderParams feeQuoteResponse =
     (let requestOrderData =
            CreateOrder orderParams (fee_quote feeQuoteResponse)
              (fee_quote_signature feeQuoteResponse)
      in andThen (await (Multicall [selfPermitData, requestOrderData])
                    (multicall env [selfPermitData, requestOrderData]))
           (\<lambda>tx. await (TxWait tx) (txWait env tx)))"

text \<open>\<^verbatim>\<open>log.topics[0]\<close>: undefined for a log without topics.\<close>

definition topic0 :: "Log \<Rightarrow> hex option" where
  "topic0 entry = (case topics entry of [] \<Rightarrow> None | t # _ \<Rightarrow> Some t)"

text \<open>\<^verbatim>\<open>logs.map((log) => interface.parseLog(log))\<close>: the first failure is thrown.\<close>

fun parseLogs :: "env \<Rightarrow> Log list \<Rightarrow> error + (nat \<times> address) list" where
  "parseLogs env [] = Inr []"
| "parseLogs env (l # ls) =
     (case parseLog env l of
        Inl e \<Rightarrow> Inl e
      | Inr p \<Rightarrow> (case parseLogs env ls of Inl e \<Rightarrow> Inl e | Inr ps \<Rightarrow> Inr (p # ps)))"

text \<open>A variable of the process environment is missing when unset or empty.\<close>

definition missing :: "string option \<Rightarrow> bool" where
  "missing v = (v = None \<or> v = Some [])"

text \<open>The part of \<^verbatim>\<open>main\<close> after the receipt: find the event, report the order.\<close>

definition reportOrder_direct :: "env \<Rightarrow> Receipt \<Rightarrow> unit io" where
  "reportOrder_direct env receipt =
     andThen (lift (parseLogs env
                (filter (\<lambda>entry. topic0 entry = Some (orderCreatedTopic env)) (logs receipt))))
       (\<lambda>orderEvents.
     case orderEvents of
       [] \<Rightarrow> throw (Error ''no order event'')
     | orderEvent # _ \<Rightarrow>
         let orderId' = fst orderEvent; orderAccount = snd orderEvent
         in andThen (console_log (OrderIdLine orderId'))
              (\<lambda>_.
            andThen (console_log (OrderAccountLine orderAccount))
              (\<lambda>_.
            andThen (await (GetOrderStatus orderId') (getOrderStatus env orderId'))
              (\<lambda>orderStatus. console_log (OrderStatusLine orderStatus)))))"

text \<open>
  \<^verbatim>\<open>main\<close> of the direct script, split where its own section comments split it:
  \<open>permitAndSubmit_direct\<close> is everything below \<^verbatim>\<open>Configure Permit\<close> and
  \<^verbatim>\<open>Submit Order\<close>, once the total spend amount is known.
\<close>

definition permitAndSubmit_direct ::
    "env \<Rightarrow> address \<Rightarrow> address \<Rightarrow> OrderParams \<Rightarrow> FeeQuoteResponse \<Rightarrow> int \<Rightarrow> unit io" where
  "permitAndSubmit_direct env paymentTokenAddress orderProcessorAddress orderParams
       feeQuoteResponse totalSpendAmount =
     andThen (configurePermit env paymentTokenAddress orderProcessorAddress totalSpendAmount)
       (\<lambda>(permitDomain, permitMessage).
     andThen (await (SignTypedData permitDomain permitMessage)
                (signTypedData env permitDomain permitMessage))
       (\<lambda>permitSignatureBytes.
     let permitSignature = splitSignature env permitSignatureBytes;
         selfPermitData =
           SelfPermit paymentTokenAddress (owner permitMessage)
             (permit_value permitMessage) (permit_deadline permitMessage)
             (sig_v permitSignature) (sig_r permitSignature) (sig_s permitSignature)
     in andThen (submitOrder env selfPermitData orderParams feeQuoteResponse)
          (reportOrder_direct env)))"

definition main_direct :: "env \<Rightarrow> unit io" where
  "main_direct env =
     (if missing (PRIVATE_KEY_EOA env) then throw (Error ''empty key'')
      else if missing (RPC_URL env) then throw (Error ''empty rpc url'')
      else if missing (ASSETTOKEN env) then throw (Error ''empty asset token address'')
      else if missing (PAYMENTTOKEN env) then throw (Error ''empty payment token address'')
      else if missing (DINARI_API_KEY env) then throw (Error ''empty dinari api key'')
      else
        let assetTokenAddress = the (ASSETTOKEN env);
            paymentTokenAddress = the (PAYMENTTOKEN env)
        in andThen (await GetNetwork (getNetwork env))
             (\<lambda>chainId.
           let orderProcessorAddress = networkAddresses env chainId
           in andThen (configureOrder_direct env assetTokenAddress paymentTokenAddress)
                (\<lambda>orderParams.
              andThen (getFeeQuote env chainId orderProcessorAddress orderParams)
                (\<lambda>(fees, feeQuoteResponse).
              andThen (computeTotalSpendAmount orderParams fees)
                (permitAndSubmit_direct env paymentTokenAddress orderProcessorAddress
                   orderParams feeQuoteResponse)))))"

text \<open>
  The last lines of each script:
  \<^verbatim>\<open>main().then(() => process.exit(0)).catch((error) => { console.error(error); process.exit(1); })\<close>.
  The result is the events of the run and the exit code.
\<close>

definition run :: "unit io \<Rightarrow> event list \<times> nat" where
  "run m =
     (case m of
        (t, Inr _) \<Rightarrow> (t, 0)
      | (t, Inl e) \<Rightarrow> (t @ [Console (ErrorLine e)], 1))"


section \<open>The sponsored scripts: smart account, bundler, receipt\<close>

text \<open>\<^verbatim>\<open>s.toLowerCase()\<close> on the characters an address can hold.\<close>

definition toLowerCase :: "string \<Rightarrow> string" where
  "toLowerCase s =
     map (\<lambda>c. if c \<in> set ''ABCDEFGHIJKLMNOPQRSTUVWXYZ''
              then char_of (of_char c + (32::nat)) else c) s"

text \<open>
  \<^verbatim>\<open>executeOrderTransaction\<close>, the same in both sponsored scripts. The order processor
  contract is given by its address. Its second half, from \<^verbatim>\<open>txReceipt.logs.find\<close> on,
  is \<open>reportOrder_sponsored\<close>.
\<close>

definition reportOrder_sponsored :: "env \<Rightarrow> address \<Rightarrow> Receipt \<Rightarrow> unit io" where
  "reportOrder_sponsored env orderProcessorAddress txReceipt =
     (case find (\<lambda>entry. toLowerCase (log_address entry) = toLowerCase orderProcessorAddress
                        \<and> topic0 entry = Some (orderCreatedTopic env)) (logs txReceipt) of
        Some orderCreatedEvent \<Rightarrow>
          andThen (lift (parseLog env orderCreatedEvent))
            (\<lambda>decodedLog.
          let orderId' = fst decodedLog; orderAccount = snd decodedLog
          in andThen (console_log (OrderIdLine orderId'))
               (\<lambda>_.
             andThen (console_log (OrderAccountLine orderAccount))
               (\<lambda>_.
             andThen (await (GetOrderStatus orderId') (getOrderStatus env orderId'))
               (\<lambda>orderStatus. console_log (OrderStatusLine orderStatus)))))
      | None \<Rightarrow>
          andThen (console_log NoOrderCreatedLine)
            (\<lambda>_. console_log (AllLogsLine (logs txReceipt))))"

definition executeOrderTransaction ::
    "env \<Rightarrow> Transaction list \<Rightarrow> address \<Rightarrow> unit io" where
  "executeOrderTransaction env transactions orderProcessorAddress =
     andThen (await (SendTransactions transactions) (sendTransactions env transactions))
       (\<lambda>hash.
     andThen (await (WaitForUserOperationReceipt hash 60000)
                (waitForUserOperationReceipt (bundlerPoll env hash) 60000))
       (\<lambda>receiptTransactionHash.
     andThen (await (GetTransactionReceipt receiptTransactionHash)
                (getTransactionReceipt env receiptTransactionHash))
       (reportOrder_sponsored env orderProcessorAddress)))"

text \<open>
  \<^verbatim>\<open>main\<close> of the first sponsored script. \<^verbatim>\<open>setupClients\<close> and
  \<^verbatim>\<open>setupContracts\<close> only build client objects; \<^verbatim>\<open>setupSmartAccount\<close> awaits the
  smart account, whose address becomes the recipient.
\<close>

definition main_sponsored :: "env \<Rightarrow> unit io" where
  "main_sponsored env =
     (if missing (PRIVATE_KEY env) \<or> missing (RPC_URL env) \<or> missing (ASSETTOKEN env)
         \<or> missing (PAYMENTTOKEN env) \<or> missing (DINARI_API_KEY env)
         \<or> missing (PIMLICO_API_KEY env)
      then throw (Error ''Missing environment variables'')
      else
        let assetTokenAddress = the (ASSETTOKEN env);
            paymentTokenAddress = the (PAYMENTTOKEN env)
        in andThen (await GetNetwork (getNetwork env))
             (\<lambda>chainId.
           andThen (await SignerToSimpleSmartAccount (signerToSimpleSmartAccount env))
             (\<lambda>accountAddress.
           let orderProcessorAddress = networkAddresses env chainId
           in andThen (configureOrder_sponsored env accountAddress assetTokenAddress
                         paymentTokenAddress)
                (\<lambda>orderParams.
              andThen (getFeeQuote env chainId orderProcessorAddress orderParams)
                (\<lambda>(fees, feeQuoteResponse).
              andThen (computeTotalSpendAmount orderParams fees)
                (\<lambda>totalSpendAmount.
              let approvalData = Approve orderProcessorAddress totalSpendAmount;
                  createOrderData =
                    CreateOrder orderParams (fee_quote feeQuoteResponse)
                      (fee_quote_signature feeQuoteResponse)
              in try_catch
                   (let transactions =
                          [\<lparr> tx_to = paymentTokenAddress, tx_data = approvalData,
                              tx_value = 0 \<rparr>,
                           \<lparr> tx_to = orderProcessorAddress, tx_data = createOrderData,
                              tx_value = 0 \<rparr>]
                    in executeOrderTransaction env transactions orderProcessorAddress)
                   (\<lambda>error. console_log (CaughtErrorLine error))))))))"



text \<open>
  \<^verbatim>\<open>createOrder\<close> of \<^verbatim>\<open>smart_account.ts\<close>; \<open>paymentTokenAddress\<close> stands for the
  constant \<^verbatim>\<open>PAYMENT_TOKEN_ADDRESS\<close> read from the process environment.
\<close>

definition createOrder ::
    "env \<Rightarrow> address \<Rightarrow> OrderParams \<Rightarrow> FeeQuoteResponse \<Rightarrow> int \<Rightarrow> address \<Rightarrow> unit io" where
  "createOrder env paymentTokenAddress orderParams feeQuoteResponse totalSpendAmount
       orderProcessorAddress =
     (let approvalData = Approve orderProcessorAddress totalSpendAmount;
          createOrderData =
            CreateOrder orderParams (fee_quote feeQuoteResponse)
              (fee_quote_signature feeQuoteResponse);
          transactions =
            [\<lparr> tx_to = paymentTokenAddress, tx_data = approvalData, tx_value = 0 \<rparr>,
             \<lparr> tx_to = orderProcessorAddress, tx_data = createOrderData, tx_value = 0 \<rparr>]
      in executeOrderTransaction env transactions orderProcessorAddress)"



section \<open>Concrete environments\<close>

text \<open>
  A run in which every external system answers: chain 11155111, an order processor at
  \<open>0xAbCd\<close> whose decimal reduction for the asset is 3, an asset of 18 decimals, a
  quoted fee of 2500, and a receipt that carries one creation event of the processor
  (its address written in lower case).
\<close>

definition quote_ok :: FeeQuoteResponse where
  "quote_ok =
     \<lparr> fee_quote = \<lparr> orderId = ''0x01'', requester = ''0x5167E4'', fee = 2500,
                      timestamp = 1700000000, deadline = 1700000600 \<rparr>,
       fee_quote_signature = ''0xF00D'' \<rparr>"

definition receipt_ok :: Receipt where
  "receipt_ok =
     \<lparr> transactionHash = ''0x7A'',
       logs = [\<lparr> log_address = ''0xabcd'', topics = [''0x70p1c''], log_data = ''0x'' \<rparr>] \<rparr>"

definition env_ok :: env where
  "env_ok =
     \<lparr> PRIVATE_KEY_EOA = Some ''0xkey'',
       PRIVATE_KEY = Some ''0xkey'',
       RPC_URL = Some ''https://rpc.example'',
       ASSETTOKEN = Some ''0xA55E7'',
       PAYMENTTOKEN = Some ''0xU5DC'',
       DINARI_API_KEY = Some ''dinari-key'',
       PIMLICO_API_KEY = Some ''pimlico-key'',
       now = 1700000000000,
       signerAddress = ''0x5167E4'',
       networkAddresses = (\<lambda>_. ''0xAbCd''),
       orderCreatedTopic = ''0x70p1c'',
       parseLog = (\<lambda>_. Inr (7, ''0xACC0'')),
       splitSignature = (\<lambda>_. \<lparr> sig_v = 27, sig_r = ''0x44'', sig_s = ''0x55'' \<rparr>),
       getNetwork = Inr 11155111,
       signerToSimpleSmartAccount = Inr ''0x5A'',
       orderDecimalReduction = (\<lambda>_. Inr 3),
       decimals = Inr 18,
       postFeeQuote = (\<lambda>_ _ _. Inr quote_ok),
       nonces = (\<lambda>_. Inr 0),
       getBlockNumber = Inr 100,
       getBlock = (\<lambda>_. Inr (Some 1700000000)),
       tokenName = Inr ''USD Coin'',
       tokenVersion = Inr ''2'',
       signTypedData = (\<lambda>_ _. Inr ''0x516''),
       multicall = (\<lambda>_. Inr ''0x7A''),
       txWait = (\<lambda>_. Inr receipt_ok),
       getOrderStatus = (\<lambda>_. Inr 1),
       sendTransactions = (\<lambda>_. Inr ''0x0b''),
       bundlerPoll = (\<lambda>_. ArrivesAfter 12000 ''0x7A''),
       getTransactionReceipt = (\<lambda>_. Inr receipt_ok) \<rparr>"

text \<open>The order, the permit and the two batches of that run.\<close>

definition order_ok :: "address \<Rightarrow> OrderParams" where
  "order_ok rcp =
     \<lparr> requestTimestamp = Finite 1700000000000, recipient = rcp, assetToken = ''0xA55E7'',
       paymentToken = ''0xU5DC'', sell = False, orderType = Finite 0,
       assetTokenQuantity = Finite 0, paymentTokenQuantity = Finite 1000000,
       price = Finite 0, tif = Finite 1 \<rparr>"

definition domain_ok :: PermitDomain where
  "domain_ok =
     \<lparr> domain_name = ''USD Coin'', domain_version = ''2'', domain_chainId = 11155111,
       verifyingContract = ''0xU5DC'' \<rparr>"

definition message_ok :: PermitMessage where
  "message_ok =
     \<lparr> owner = ''0x5167E4'', spender = ''0xAbCd'', permit_value = 1002500, nonce = 0,
       permit_deadline = Finite 1700000300 \<rparr>"

definition batch_direct_ok :: "calldata list" where
  "batch_direct_ok =
     [SelfPermit ''0xU5DC'' ''0x5167E4'' 1002500 (Finite 1700000300) 27 ''0x44'' ''0x55'',
      CreateOrder (order_ok ''0x5167E4'') (fee_quote quote_ok) (fee_quote_signature quote_ok)]"

definition batch_sponsored_ok :: "Transaction list" where
  "batch_sponsored_ok =
     [\<lparr> tx_to = ''0xU5DC'', tx_data = Approve ''0xAbCd'' 1002500, tx_value = 0 \<rparr>,
      \<lparr> tx_to = ''0xAbCd'',
         tx_data = CreateOrder (order_ok ''0x5A'') (fee_quote quote_ok)
                     (fee_quote_signature quote_ok),
         tx_value = 0 \<rparr>]"



definition env_slow :: env where
  "env_slow = env_ok\<lparr> bundlerPoll := (\<lambda>_. ArrivesAfter 90000 ''0x7A'') \<rparr>"







section \<open>Failing calls\<close>




section \<open>Rounding to a double\<close>

lemma floor_rat_numeral_divide:
  "\<lfloor>(numeral a :: rat) / numeral b\<rfloor> = numeral a div numeral b"
  by (metis floor_divide_of_int_eq of_int_numeral)

lemma round_half_even_of_int: "round_half_even (of_int m) = m"
  by (simp add: round_half_even_def)

lemma round_half_even_le: "round_half_even q \<le> \<lfloor>q\<rfloor> + 1"
  by (simp add: round_half_even_def Let_def)

lemma round_half_even_nonneg: "0 \<le> q \<Longrightarrow> 0 \<le> round_half_even q"
  by (simp add: round_half_even_def Let_def)

lemma ulp_exponent_eq:
  assumes "2 ^ (52 + e) \<le> a * 2 ^ emin" and "a * 2 ^ emin < 2 ^ (53 + e)"
  shows "ulp_exponent a = e"
proof -
  let ?N = "\<lfloor>a * 2 ^ emin\<rfloor>"
  have lo: "(2::int) ^ (52 + e) \<le> ?N"
    using assms(1) by (simp add: le_floor_iff)
  have hi: "?N < (2::int) ^ (53 + e)"
    using assms(2) by (simp add: floor_less_iff)
  have "bitlen ?N \<le> int (53 + e)"
    using hi by (simp add: bitlen_le_iff_power nat_add_distrib)
  moreover have "int (53 + e) \<le> bitlen ?N"
    using lo by (simp add: bitlen_ge_iff_power nat_add_distrib)
  ultimately have "bitlen ?N = int (53 + e)" by simp
  then show ?thesis by (simp add: ulp_exponent_def)
qed

lemma ulp_exponent_le:
  assumes "a < 2 ^ (53 + k)"
  shows "ulp_exponent a \<le> emin + k"
proof -
  have "a * 2 ^ emin < 2 ^ (53 + k) * 2 ^ emin" using assms by simp
  then have "a * 2 ^ emin < 2 ^ (53 + (emin + k))" by (simp only: power_add mult_ac)
  then have "\<lfloor>a * 2 ^ emin\<rfloor> < (2::int) ^ (53 + (emin + k))" by (simp add: floor_less_iff)
  then have "bitlen \<lfloor>a * 2 ^ emin\<rfloor> \<le> int (53 + (emin + k))"
    by (simp add: bitlen_le_iff_power nat_add_distrib)
  then show ?thesis by (simp add: ulp_exponent_def)
qed

text \<open>A 53-bit integer times a power of two is a double, as long as it does not overflow.\<close>

lemma round_double_exact:
  assumes "\<bar>m\<bar> < 2 ^ 53" and "k \<le> 900"
  shows "round_double (of_int m * 2 ^ k) = Finite (of_int m * 2 ^ k)"
proof -
  define a :: rat where "a = \<bar>of_int m * 2 ^ k\<bar>"
  define e where "e = ulp_exponent a"
  have a: "a = of_int \<bar>m\<bar> * 2 ^ k" by (simp add: a_def abs_mult)
  have m53: "(of_int \<bar>m\<bar> :: rat) < 2 ^ 53"
    using assms(1) by (metis of_int_less_numeral_power_cancel_iff)
  then have "a < 2 ^ 53 * 2 ^ k" unfolding a by simp
  then have abound: "a < 2 ^ (53 + k)" by (simp only: power_add)
  then have e: "e \<le> emin + k" unfolding e_def by (rule ulp_exponent_le)
  have split: "(2::rat) ^ k * 2 ^ emin = 2 ^ (emin + k - e) * 2 ^ e"
    using e by (simp flip: power_add)
  have q: "a * 2 ^ emin / 2 ^ e = of_int (\<bar>m\<bar> * 2 ^ (emin + k - e))"
    unfolding a mult.assoc split by simp
  have "of_int (round_half_even (a * 2 ^ emin / 2 ^ e)) * 2 ^ e = a * (2::rat) ^ emin"
    unfolding q round_half_even_of_int unfolding a mult.assoc split by simp
  then have r: "of_int (round_half_even (a * 2 ^ emin / 2 ^ e)) * 2 ^ e / 2 ^ emin = a"
    by simp
  have "(2::rat) ^ (53 + k) \<le> 2 ^ 1024"
    using assms(2) by (intro power_increasing) simp_all
  then have big: "\<not> (2::rat) ^ 1024 \<le> a" using abound by linarith
  have "sgn (of_int m * 2 ^ k :: rat) * a = of_int m * 2 ^ k"
    unfolding a_def by (simp only: mult_sgn_abs)
  then show ?thesis
    unfolding round_double_def Let_def a_def[symmetric] e_def[symmetric] r
    using big by simp
qed

lemma round_double_of_int:
  "\<bar>n\<bar> < 2 ^ 53 \<Longrightarrow> round_double (of_int n) = Finite (of_int n)"
  using round_double_exact[of n 0] by simp

lemma round_double_large:
  assumes "2 ^ (52 + k) \<le> \<bar>x\<bar>" and "\<bar>x\<bar> < 2 ^ (53 + k)"
  shows "round_double x =
     (let r = of_int (round_half_even (\<bar>x\<bar> / 2 ^ k)) * 2 ^ k
      in if 2 ^ 1024 \<le> r then (if 0 < x then PosInfinity else NegInfinity)
         else Finite (sgn x * r))"
proof -
  have "ulp_exponent \<bar>x\<bar> = k + emin"
  proof (rule ulp_exponent_eq)
    have "(2::rat) ^ (52 + k) * 2 ^ emin \<le> \<bar>x\<bar> * 2 ^ emin"
      using assms(1) by (intro mult_right_mono) simp_all
    then show "2 ^ (52 + (k + emin)) \<le> \<bar>x\<bar> * 2 ^ emin"
      by (simp only: power_add mult.assoc)
    have "\<bar>x\<bar> * 2 ^ emin < (2::rat) ^ (53 + k) * 2 ^ emin"
      using assms(2) by (intro mult_strict_right_mono) simp_all
    then show "\<bar>x\<bar> * 2 ^ emin < 2 ^ (53 + (k + emin))"
      by (simp only: power_add mult.assoc)
  qed
  moreover have "\<bar>x\<bar> * 2 ^ emin / 2 ^ (k + emin) = \<bar>x\<bar> / 2 ^ k"
    by (simp add: power_add)
  moreover have "\<And>m::rat. m * 2 ^ (k + emin) / 2 ^ emin = m * 2 ^ k"
    by (simp add: power_add)
  ultimately show ?thesis
    by (simp only: round_double_def Let_def)
qed

lemma round_double_small:
  assumes "2 ^ 52 \<le> \<bar>x\<bar> * 2 ^ k" and "\<bar>x\<bar> * 2 ^ k < 2 ^ 53" and "k \<le> emin"
  shows "round_double x = Finite (sgn x * (of_int (round_half_even (\<bar>x\<bar> * 2 ^ k)) / 2 ^ k))"
proof -
  have split: "(2::rat) ^ emin = 2 ^ k * 2 ^ (emin - k)"
    using assms(3) by (simp flip: power_add)
  have "ulp_exponent \<bar>x\<bar> = emin - k"
  proof (rule ulp_exponent_eq)
    have "(2::rat) ^ 52 * 2 ^ (emin - k) \<le> \<bar>x\<bar> * 2 ^ k * 2 ^ (emin - k)"
      using assms(1) by (intro mult_right_mono) simp_all
    then show "2 ^ (52 + (emin - k)) \<le> \<bar>x\<bar> * 2 ^ emin"
      unfolding split by (simp only: power_add mult.assoc)
    have "\<bar>x\<bar> * 2 ^ k * 2 ^ (emin - k) < (2::rat) ^ 53 * 2 ^ (emin - k)"
      using assms(2) by (intro mult_strict_right_mono) simp_all
    then show "\<bar>x\<bar> * 2 ^ emin < 2 ^ (53 + (emin - k))"
      unfolding split by (simp only: power_add mult.assoc)
  qed
  moreover have "\<bar>x\<bar> * 2 ^ emin / 2 ^ (emin - k) = \<bar>x\<bar> * 2 ^ k"
    unfolding split by simp
  moreover have "\<And>m::rat. m * 2 ^ (emin - k) / 2 ^ emin = m / 2 ^ k"
    unfolding split by simp
  moreover have "\<not> (2::rat) ^ 1024 \<le> of_int (round_half_even (\<bar>x\<bar> * 2 ^ k)) / 2 ^ k"
  proof -
    let ?m = "round_half_even (\<bar>x\<bar> * 2 ^ k)"
    have "\<lfloor>\<bar>x\<bar> * 2 ^ k\<rfloor> < (2::int) ^ 53"
      using assms(2) by (simp add: floor_less_iff)
    then have "?m \<le> 2 ^ 53"
      using round_half_even_le[of "\<bar>x\<bar> * 2 ^ k"] by linarith
    then have "(of_int ?m :: rat) \<le> 2 ^ 53"
      by (metis of_int_le_numeral_power_cancel_iff)
    moreover have "(of_int ?m :: rat) / 2 ^ k \<le> of_int ?m"
      using round_half_even_nonneg[of "\<bar>x\<bar> * 2 ^ k"] assms(1)
      by (simp add: divide_le_eq mult_le_cancel_left1 order_trans[of 0 "2 ^ 52"])
    ultimately have "(of_int ?m :: rat) / 2 ^ k < 2 ^ 1024"
      using power_strict_increasing[of 53 1024 "2::rat"] by linarith
    then show ?thesis by simp
  qed
  ultimately show ?thesis
    by (simp only: round_double_def Let_def if_False)
qed

lemma Number_of_bigint_exact:
  "\<bar>n\<bar> < 2 ^ 53 \<Longrightarrow> Number_of_bigint n = Finite (of_int n)"
  by (simp add: Number_of_bigint_def round_double_of_int)

lemma BigInt_of_number_of_int: "BigInt_of_number (Finite (of_int n)) = Inr n"
  by (simp add: BigInt_of_number_def)

lemma js_pow_10_exact:
  assumes "r \<le> 22"
  shows "js_pow 10 r = Finite (10 ^ r)"
proof -
  have "(5::int) ^ r \<le> 5 ^ 22" using assms by (intro power_increasing) simp_all
  then have "\<bar>(5::int) ^ r\<bar> < 2 ^ 53" by simp
  then have "round_double (of_int (5 ^ r) * 2 ^ r) = Finite (of_int (5 ^ r) * 2 ^ r)"
    using assms by (intro round_double_exact) simp_all
  moreover have "(of_int (5 ^ r) * 2 ^ r :: rat) = 10 ^ r"
    by (simp flip: power_mult_distrib)
  ultimately show ?thesis by (simp add: js_pow_def)
qed

lemma js_trunc_of_int: "js_trunc (of_int c) = c"
  by (simp add: js_trunc_def)

lemma js_rem_zero_iff_dvd:
  assumes "p \<noteq> 0"
  shows "(of_int n - of_int p * of_int (js_trunc (of_int n / of_int p)) = (0::rat)) \<longleftrightarrow> p dvd n"
proof
  assume "of_int n - of_int p * of_int (js_trunc (of_int n / of_int p)) = (0::rat)"
  then have "(of_int n :: rat) = of_int (p * js_trunc (of_int n / of_int p))" by simp
  then have "n = p * js_trunc (of_int n / of_int p)" by (simp only: of_int_eq_iff)
  then show "p dvd n" by (metis dvd_triv_left)
next
  assume "p dvd n"
  then obtain c where n: "n = p * c" by (auto simp: dvd_def)
  have "(of_int n :: rat) / of_int p = of_int c" using assms by (simp add: n)
  then show "of_int n - of_int p * of_int (js_trunc (of_int n / of_int p)) = (0::rat)"
    by (simp add: js_trunc_of_int n)
qed

lemma precision_test_exact:
  assumes "\<bar>n\<bar> < 2 ^ 53" and "r \<le> 22"
  shows "js_ne_zero (js_rem (Number_of_bigint n) (js_pow 10 r)) \<longleftrightarrow> \<not> 10 ^ r dvd n"
proof -
  have "(10::rat) ^ r = of_int (10 ^ r)" by simp
  then show ?thesis
    using js_rem_zero_iff_dvd[of "10 ^ r" n]
    by (simp add: Number_of_bigint_exact[OF assms(1)] js_pow_10_exact[OF assms(2)] js_ne_zero_def)
qed

section \<open>Rules for computations\<close>

lemma andThen_ret [simp]: "andThen (ret a) f = f a"
  by (simp add: andThen_def ret_def split: prod.splits)

lemma andThen_throw [simp]: "andThen (throw e) f = throw e"
  by (simp add: andThen_def throw_def)

lemma andThen_lift [simp]:
  "andThen (lift (Inr a)) f = f a"
  "andThen (lift (Inl e)) f = throw e"
  by (simp_all add: andThen_def lift_def throw_def split: prod.splits)

lemma andThen_await [simp]:
  "andThen (await ev (Inr a)) f = (ev # fst (f a), snd (f a))"
  "andThen (await ev (Inl e)) f = ([ev], Inl e)"
  by (simp_all add: andThen_def await_def split: prod.splits)

lemma andThen_console_log [simp]:
  "andThen (console_log line) f = (Console line # fst (f ()), snd (f ()))"
  by (simp add: andThen_def console_log_def split: prod.splits)

lemma io_fst_snd [simp]:
  "fst (ret a) = []" "snd (ret a) = Inr a"
  "fst (throw e) = []" "snd (throw e) = Inl e"
  "fst (await ev answer) = [ev]" "snd (await ev answer) = answer"
  "fst (console_log line) = [Console line]" "snd (console_log line) = Inr ()"
  by (simp_all add: ret_def throw_def await_def console_log_def)

lemma js_sub_small:
  assumes "d < 256" and "r < 256"
  shows "js_sub (Finite (of_nat d)) (Finite (of_nat r)) = Finite (of_int (int d - int r))"
proof -
  have "\<bar>int d - int r\<bar> < 2 ^ 53" using assms by simp
  then have "round_double (of_int (int d - int r)) = Finite (of_int (int d - int r))"
    by (rule round_double_of_int)
  then show ?thesis by (simp add: js_sub_def)
qed

lemma validateSellOrderPrecision_eval:
  assumes "orderDecimalReduction env asset = Inr r" and "decimals env = Inr d"
    and "r \<le> 22" and "d < 256" and "\<bar>amount\<bar> < 2 ^ 53"
  shows "validateSellOrderPrecision env asset amount =
     (if 10 ^ r dvd amount then ([OrderDecimalReduction asset], Inr ())
      else ([OrderDecimalReduction asset, Decimals],
            Inl (PrecisionError (Finite (of_int (int d - int r))))))"
proof -
  have "r < 256" using assms(3) by simp
  then show ?thesis
    using assms
    by (simp add: validateSellOrderPrecision_def precision_test_exact js_sub_small
        del: of_nat_diff)
qed

lemma configureOrder_direct_eval:
  "configureOrder_direct env a p =
     ret \<lparr> requestTimestamp = Finite (of_nat (now env)), recipient = signerAddress env,
           assetToken = a, paymentToken = p, sell = False, orderType = Finite 0,
           assetTokenQuantity = Finite 0, paymentTokenQuantity = Finite 1000000,
           price = Finite 0, tif = Finite 1 \<rparr>"
proof -
  have "BigInt_of_number (Finite 1000000) = Inr 1000000"
    using BigInt_of_number_of_int[of 1000000] by simp
  moreover have "Number_of_bigint 1000000 = Finite 1000000"
    using Number_of_bigint_exact[of 1000000] by simp
  ultimately show ?thesis by (simp add: configureOrder_direct_def)
qed

lemma configureOrder_sponsored_eval:
  "configureOrder_sponsored env rcp a p =
     ret \<lparr> requestTimestamp = Finite (of_nat (now env)), recipient = rcp,
           assetToken = a, paymentToken = p, sell = False, orderType = Finite 0,
           assetTokenQuantity = Finite 0, paymentTokenQuantity = Finite 1000000,
           price = Finite 0, tif = Finite 1 \<rparr>"
proof -
  have "BigInt_of_number (Finite 1000000) = Inr 1000000"
    using BigInt_of_number_of_int[of 1000000] by simp
  moreover have "Number_of_bigint 1000000 = Finite 1000000"
    using Number_of_bigint_exact[of 1000000] by simp
  ultimately show ?thesis by (simp add: configureOrder_sponsored_def)
qed

lemma default_amount_eval: "default_amount = Finite 100000000"
proof -
  have "js_pow 10 6 = Finite (10 ^ 6)" by (rule js_pow_10_exact) simp
  moreover have "round_double (of_int 100000000) = Finite (of_int 100000000)"
    by (rule round_double_of_int) simp
  ultimately show ?thesis by (simp add: default_amount_def)
qed


lemma tenth_eval: "round_double (1 / 10) = Finite (3602879701896397 / 36028797018963968)"
  using round_double_small[of "1 / 10" 56]
  by (simp add: round_half_even_def Let_def emin_def floor_rat_numeral_divide)

lemma tokenAmount_eval:
  "BigInt_of_number (js_mul (round_double (1 / 10)) (js_pow 10 18)) = Inr (10 ^ 17)"
proof -
  have p: "js_pow 10 18 = Finite (10 ^ 18)" by (rule js_pow_10_exact) simp
  have "round_double (3602879701896397 / 36028797018963968 * 10 ^ 18) = Finite (10 ^ 17)"
    using round_double_large[of 4 "3602879701896397 / 36028797018963968 * 10 ^ 18"]
    by (simp add: round_half_even_def Let_def floor_rat_numeral_divide)
  then have "js_mul (round_double (1 / 10)) (js_pow 10 18) = Finite (of_int (10 ^ 17))"
    by (simp add: tenth_eval p)
  then show ?thesis by (simp only: BigInt_of_number_of_int)
qed

lemma Number_of_bigint_rounds:
  "Number_of_bigint 1000000000000000001 = Finite 1000000000000000000"
  using round_double_large[of 7 "of_int 1000000000000000001"]
  by (simp add: Number_of_bigint_def round_half_even_def Let_def floor_rat_numeral_divide)

lemma validate_accepts_rounded:
  "validateSellOrderPrecision env_ok a 1000000000000000001 = ([OrderDecimalReduction a], Inr ())"
proof -
  have "js_pow 10 3 = Finite (10 ^ 3)" by (rule js_pow_10_exact) simp
  then show ?thesis
    by (simp add: validateSellOrderPrecision_def env_ok_def Number_of_bigint_rounds
        js_ne_zero_def js_trunc_def ret_def)
qed

lemma andThen_assoc [simp]:
  "andThen (andThen m g) f = andThen m (\<lambda>a. andThen (g a) f)"
  by (simp add: andThen_def split: prod.splits sum.splits)

lemma andThen_await_case:
  "andThen (await ev answer) f =
     (case answer of Inl e \<Rightarrow> ([ev], Inl e) | Inr a \<Rightarrow> (ev # fst (f a), snd (f a)))"
  by (simp split: sum.splits)

lemma andThen_lift_case:
  "andThen (lift answer) f = (case answer of Inl e \<Rightarrow> ([], Inl e) | Inr a \<Rightarrow> f a)"
  by (simp add: throw_def split: sum.splits)

lemma andThen_pair [simp]:
  "andThen (t, Inl e) f = (t, Inl e)"
  "andThen (t, Inr a) f = (t @ fst (f a), snd (f a))"
  by (simp_all add: andThen_def split: prod.splits)

lemma andThen_try_catch_await:
  "andThen (try_catch (await ev answer) h) f =
     (case answer of
        Inl e \<Rightarrow> (ev # fst (andThen (h e) f), snd (andThen (h e) f))
      | Inr a \<Rightarrow> (ev # fst (f a), snd (f a)))"
  by (simp add: try_catch_def await_def andThen_def split: sum.splits prod.splits)

lemma andThen_pair_case:
  "andThen (t, answer) f =
     (case answer of Inl e \<Rightarrow> (t, Inl e) | Inr a \<Rightarrow> (t @ fst (f a), snd (f a)))"
  by (simp split: sum.splits)

lemma try_catch_pair_case:
  "try_catch (t, answer) h =
     (case answer of Inl e \<Rightarrow> (t @ fst (h e), snd (h e)) | Inr a \<Rightarrow> (t, Inr a))"
  by (simp add: try_catch_def split: sum.splits prod.splits)

lemmas io_defs =
  await_def ret_def throw_def lift_def console_log_def andThen_pair_case
  try_catch_pair_case Let_def

lemmas permit_defs =
  permitAndSubmit_direct_def configurePermit_def
  getContractVersion_def submitOrder_def

lemma reportOrder_direct_events:
  assumes "ev \<in> set (fst (reportOrder_direct env rc))"
  shows "(\<exists>line. ev = Console line) \<or> (\<exists>i. ev = GetOrderStatus i)"
  using assms
  by (auto simp add: reportOrder_direct_def io_defs split: sum.splits list.splits)

lemma permitAndSubmit_direct_events:
  assumes "ev \<in> set (fst (permitAndSubmit_direct env pt opa p r amt))"
  shows "(\<forall>d m. ev = SignTypedData d m \<longrightarrow>
            permit_value m = amt \<and> owner m = signerAddress env \<and> spender m = opa) \<and>
         (\<forall>cs. ev = Multicall cs \<longrightarrow>
            (\<exists>dl v sr ss. cs = [SelfPermit pt (signerAddress env) amt dl v sr ss,
                               CreateOrder p (fee_quote r) (fee_quote_signature r)]))"
  using assms
  by (auto simp add: permit_defs io_defs
      dest: reportOrder_direct_events
      split: if_splits sum.splits prod.splits)

lemma main_direct_shape:
  "(\<exists>e. main_direct env = ([], Inl e)) \<or>
   (\<exists>e. getNetwork env = Inl e \<and> main_direct env = ([GetNetwork], Inl e)) \<or>
   (\<exists>c p. getNetwork env = Inr c \<and>
       configureOrder_direct env (the (ASSETTOKEN env)) (the (PAYMENTTOKEN env)) = ret p \<and>
       ((\<exists>e. postFeeQuote env c (networkAddresses env c) p = Inl e \<and>
          main_direct env = ([GetNetwork, PostFeeQuote c (networkAddresses env c) p], Inl e)) \<or>
        (\<exists>r. postFeeQuote env c (networkAddresses env c) p = Inr r \<and>
           fst (main_direct env) =
             GetNetwork # PostFeeQuote c (networkAddresses env c) p #
             fst (permitAndSubmit_direct env (the (PAYMENTTOKEN env))
                    (networkAddresses env c) p r (1000000 + fee (fee_quote r))) \<and>
           snd (main_direct env) =
             snd (permitAndSubmit_direct env (the (PAYMENTTOKEN env))
                    (networkAddresses env c) p r (1000000 + fee (fee_quote r))))))"
  using BigInt_of_number_of_int[of 1000000]
  by (auto simp add: main_direct_def getFeeQuote_def computeTotalSpendAmount_def
      configureOrder_direct_eval io_defs
      split: sum.splits)

lemma configurePermit_events:
  assumes "ev \<in> set (fst (configurePermit env pt opa amt))"
  shows "ev \<in> {Nonces (signerAddress env), GetBlockNumber, TokenName, TokenVersion, GetNetwork}
         \<or> (\<exists>n. ev = GetBlock n)"
  using assms
  by (auto simp add: configurePermit_def getContractVersion_def io_defs
      split: if_splits sum.splits)

lemma configurePermit_result:
  assumes "snd (configurePermit env pt opa amt) = Inr (d, m)"
  shows "permit_value m = amt \<and> owner m = signerAddress env \<and> spender m = opa \<and>
         verifyingContract d = pt"
  using assms
  by (auto simp add: configurePermit_def getContractVersion_def io_defs
      split: if_splits sum.splits)

lemma permitAndSubmit_direct_signed:
  "SignTypedData d m \<in> set (fst (permitAndSubmit_direct env pt opa p r amt)) \<longleftrightarrow>
     snd (configurePermit env pt opa amt) = Inr (d, m)"
proof -
  obtain t res where cp: "configurePermit env pt opa amt = (t, res)"
    by (cases "configurePermit env pt opa amt")
  have "SignTypedData d m \<notin> set t"
    using configurePermit_events[of "SignTypedData d m" env pt opa amt] cp by auto
  then show ?thesis
    by (auto simp add: permitAndSubmit_direct_def submitOrder_def cp io_defs
        dest: reportOrder_direct_events split: sum.splits prod.splits)
qed

lemma permitAndSubmit_direct_multicall:
  "Multicall cs \<in> set (fst (permitAndSubmit_direct env pt opa p r amt)) \<longleftrightarrow>
     (\<exists>d m sg. snd (configurePermit env pt opa amt) = Inr (d, m) \<and>
        signTypedData env d m = Inr sg \<and>
        cs = [SelfPermit pt (owner m) (permit_value m) (permit_deadline m)
                (sig_v (splitSignature env sg)) (sig_r (splitSignature env sg))
                (sig_s (splitSignature env sg)),
              CreateOrder p (fee_quote r) (fee_quote_signature r)])"
proof -
  obtain t res where cp: "configurePermit env pt opa amt = (t, res)"
    by (cases "configurePermit env pt opa amt")
  have "Multicall cs \<notin> set t"
    using configurePermit_events[of "Multicall cs" env pt opa amt] cp by auto
  then show ?thesis
    by (auto simp add: permitAndSubmit_direct_def submitOrder_def cp io_defs
        dest: reportOrder_direct_events split: sum.splits prod.splits)
qed

lemma main_direct_after_quote:
  assumes "ev \<in> set (fst (main_direct env))" and "ev \<noteq> GetNetwork"
    and "\<And>c a i. ev \<noteq> PostFeeQuote c a i"
  shows "\<exists>c i r. postFeeQuote env c (networkAddresses env c) i = Inr r \<and>
           paymentTokenQuantity i = Finite 1000000 \<and>
           fst (main_direct env) =
             GetNetwork # PostFeeQuote c (networkAddresses env c) i #
             fst (permitAndSubmit_direct env (the (PAYMENTTOKEN env))
                    (networkAddresses env c) i r (1000000 + fee (fee_quote r))) \<and>
           ev \<in> set (fst (permitAndSubmit_direct env (the (PAYMENTTOKEN env))
                    (networkAddresses env c) i r (1000000 + fee (fee_quote r))))"
  using main_direct_shape[of env] assms
  by (auto simp add: configureOrder_direct_eval ret_def)


lemma computeTotalSpendAmount_eval:
  "paymentTokenQuantity p = Finite (of_int q) \<Longrightarrow>
     computeTotalSpendAmount p fees = ([], Inr (q + fees))"
  by (simp add: computeTotalSpendAmount_def BigInt_of_number_of_int ret_def)

section \<open>The sponsored scripts, stage by stage\<close>

lemma round_double_numeral:
  "\<bar>numeral k :: int\<bar> < 2 ^ 53 \<Longrightarrow> round_double (numeral k) = Finite (numeral k)"
  using round_double_of_int[of "numeral k"] by simp

lemma Number_of_bigint_numeral:
  "\<bar>numeral k :: int\<bar> < 2 ^ 53 \<Longrightarrow> Number_of_bigint (numeral k) = Finite (numeral k)"
  using Number_of_bigint_exact[of "numeral k"] by simp

lemma BigInt_of_number_numeral: "BigInt_of_number (Finite (numeral k)) = Inr (numeral k)"
  using BigInt_of_number_of_int[of "numeral k"] by simp

lemma try_catch_log:
  "try_catch m (\<lambda>error. console_log (CaughtErrorLine error)) =
     (fst m @ (case snd m of Inl e \<Rightarrow> [Console (CaughtErrorLine e)] | Inr _ \<Rightarrow> []), Inr ())"
  by (cases m) (auto simp add: try_catch_def console_log_def split: sum.splits)

lemma try_catch_log_unfolded:
  "try_catch m (\<lambda>error. ([Console (CaughtErrorLine error)], Inr ())) =
     (fst m @ (case snd m of Inl e \<Rightarrow> [Console (CaughtErrorLine e)] | Inr _ \<Rightarrow> []), Inr ())"
  using try_catch_log[of m] by (simp add: console_log_def)

lemma reportOrder_sponsored_events:
  assumes "ev \<in> set (fst (reportOrder_sponsored env a rc))"
  shows "(\<exists>line. ev = Console line) \<or> (\<exists>i. ev = GetOrderStatus i)"
  using assms
  by (auto simp add: reportOrder_sponsored_def io_defs split: sum.splits option.splits)

lemma executeOrderTransaction_events:
  assumes "ev \<in> set (fst (executeOrderTransaction env txs a))"
  shows "ev = SendTransactions txs \<or> (\<exists>h. ev = WaitForUserOperationReceipt h 60000) \<or>
         (\<exists>h. ev = GetTransactionReceipt h) \<or> (\<exists>line. ev = Console line) \<or>
         (\<exists>i. ev = GetOrderStatus i)"
  using assms
  by (auto simp add: executeOrderTransaction_def io_defs
      dest: reportOrder_sponsored_events split: sum.splits)

lemma main_sponsored_shape:
  "(\<exists>e. main_sponsored env = ([], Inl e)) \<or>
   (\<exists>e. getNetwork env = Inl e \<and> main_sponsored env = ([GetNetwork], Inl e)) \<or>
   (\<exists>c e. getNetwork env = Inr c \<and> signerToSimpleSmartAccount env = Inl e \<and>
      main_sponsored env = ([GetNetwork, SignerToSimpleSmartAccount], Inl e)) \<or>
   (\<exists>c acct p. getNetwork env = Inr c \<and> signerToSimpleSmartAccount env = Inr acct \<and>
       configureOrder_sponsored env acct (the (ASSETTOKEN env)) (the (PAYMENTTOKEN env)) = ret p \<and>
       ((\<exists>e. postFeeQuote env c (networkAddresses env c) p = Inl e \<and>
          main_sponsored env =
            ([GetNetwork, SignerToSimpleSmartAccount, PostFeeQuote c (networkAddresses env c) p],
             Inl e)) \<or>
        (\<exists>r. postFeeQuote env c (networkAddresses env c) p = Inr r \<and>
           main_sponsored env =
             (GetNetwork # SignerToSimpleSmartAccount #
              PostFeeQuote c (networkAddresses env c) p #
              fst (try_catch
                     (executeOrderTransaction env
                        [\<lparr> tx_to = the (PAYMENTTOKEN env),
                            tx_data = Approve (networkAddresses env c)
                                        (1000000 + fee (fee_quote r)),
                            tx_value = 0 \<rparr>,
                         \<lparr> tx_to = networkAddresses env c,
                            tx_data = CreateOrder p (fee_quote r) (fee_quote_signature r),
                            tx_value = 0 \<rparr>]
                        (networkAddresses env c))
                     (\<lambda>error. console_log (CaughtErrorLine error))),
              Inr ()))))"
  using BigInt_of_number_of_int[of 1000000]
  by (auto simp add: main_sponsored_def getFeeQuote_def computeTotalSpendAmount_def
      configureOrder_sponsored_eval io_defs try_catch_log_unfolded
      split: sum.splits)



lemma main_direct_multicall:
  assumes "Multicall cs \<in> set (fst (main_direct env))"
  shows "\<exists>c i r d m sg.
           PostFeeQuote c (networkAddresses env c) i \<in> set (fst (main_direct env)) \<and>
           postFeeQuote env c (networkAddresses env c) i = Inr r \<and>
           paymentTokenQuantity i = Finite 1000000 \<and>
           SignTypedData d m \<in> set (fst (main_direct env)) \<and>
           signTypedData env d m = Inr sg \<and>
           permit_value m = 1000000 + fee (fee_quote r) \<and>
           cs = [SelfPermit (the (PAYMENTTOKEN env)) (owner m) (permit_value m)
                   (permit_deadline m) (sig_v (splitSignature env sg))
                   (sig_r (splitSignature env sg)) (sig_s (splitSignature env sg)),
                 CreateOrder i (fee_quote r) (fee_quote_signature r)]"
proof -
  from main_direct_after_quote[OF assms] obtain c i r where
    q0: "postFeeQuote env c (networkAddresses env c) i = Inr r"
       "paymentTokenQuantity i = Finite 1000000"
    and rest: "fst (main_direct env) =
       GetNetwork # PostFeeQuote c (networkAddresses env c) i #
       fst (permitAndSubmit_direct env (the (PAYMENTTOKEN env)) (networkAddresses env c) i r
              (1000000 + fee (fee_quote r)))"
    and mem: "Multicall cs \<in> set (fst (permitAndSubmit_direct env (the (PAYMENTTOKEN env))
                (networkAddresses env c) i r (1000000 + fee (fee_quote r))))"
    by auto
  from mem obtain d m sg where
    cp: "snd (configurePermit env (the (PAYMENTTOKEN env)) (networkAddresses env c)
           (1000000 + fee (fee_quote r))) = Inr (d, m)"
    and sg: "signTypedData env d m = Inr sg"
    and cs: "cs = [SelfPermit (the (PAYMENTTOKEN env)) (owner m) (permit_value m)
                   (permit_deadline m) (sig_v (splitSignature env sg))
                   (sig_r (splitSignature env sg)) (sig_s (splitSignature env sg)),
                 CreateOrder i (fee_quote r) (fee_quote_signature r)]"
    unfolding permitAndSubmit_direct_multicall by blast
  have q: "PostFeeQuote c (networkAddresses env c) i \<in> set (fst (main_direct env))"
       "postFeeQuote env c (networkAddresses env c) i = Inr r"
       "paymentTokenQuantity i = Finite 1000000"
    using q0 by (simp_all add: rest)
  have "SignTypedData d m \<in> set (fst (permitAndSubmit_direct env (the (PAYMENTTOKEN env))
          (networkAddresses env c) i r (1000000 + fee (fee_quote r))))"
    using cp by (simp only: permitAndSubmit_direct_signed)
  then have signed: "SignTypedData d m \<in> set (fst (main_direct env))"
    by (simp add: rest)
  have "permit_value m = 1000000 + fee (fee_quote r)"
    using configurePermit_result[OF cp] by simp
  with q signed sg cs show ?thesis by blast
qed

lemma main_direct_signed:
  assumes "SignTypedData d m \<in> set (fst (main_direct env))"
  shows "\<exists>c i r.
           PostFeeQuote c (networkAddresses env c) i \<in> set (fst (main_direct env)) \<and>
           postFeeQuote env c (networkAddresses env c) i = Inr r \<and>
           paymentTokenQuantity i = Finite 1000000 \<and>
           permit_value m = 1000000 + fee (fee_quote r)"
proof -
  from main_direct_after_quote[OF assms] obtain c i r where
    q0: "postFeeQuote env c (networkAddresses env c) i = Inr r"
       "paymentTokenQuantity i = Finite 1000000"
    and rest: "fst (main_direct env) =
       GetNetwork # PostFeeQuote c (networkAddresses env c) i #
       fst (permitAndSubmit_direct env (the (PAYMENTTOKEN env)) (networkAddresses env c) i r
              (1000000 + fee (fee_quote r)))"
    and mem: "SignTypedData d m \<in> set (fst (permitAndSubmit_direct env (the (PAYMENTTOKEN env))
                (networkAddresses env c) i r (1000000 + fee (fee_quote r))))"
    by auto
  have q: "PostFeeQuote c (networkAddresses env c) i \<in> set (fst (main_direct env))"
       "postFeeQuote env c (networkAddresses env c) i = Inr r"
       "paymentTokenQuantity i = Finite 1000000"
    using q0 by (simp_all add: rest)
  from mem have "snd (configurePermit env (the (PAYMENTTOKEN env)) (networkAddresses env c)
           (1000000 + fee (fee_quote r))) = Inr (d, m)"
    by (simp only: permitAndSubmit_direct_signed)
  then have "permit_value m = 1000000 + fee (fee_quote r)"
    using configurePermit_result by blast
  with q show ?thesis by blast
qed

lemma in_caught_line:
  "ev \<in> set (case r of Inl e \<Rightarrow> [Console (CaughtErrorLine e)] | Inr x \<Rightarrow> []) \<longleftrightarrow>
     (\<exists>e. r = Inl e \<and> ev = Console (CaughtErrorLine e))"
  by (cases r) auto

lemma main_sponsored_after_quote:
  assumes "ev \<in> set (fst (main_sponsored env))" and "ev \<noteq> GetNetwork"
    and "ev \<noteq> SignerToSimpleSmartAccount" and "\<And>c a i. ev \<noteq> PostFeeQuote c a i"
  shows "\<exists>c i r. postFeeQuote env c (networkAddresses env c) i = Inr r \<and>
           paymentTokenQuantity i = Finite 1000000 \<and>
           main_sponsored env =
             (GetNetwork # SignerToSimpleSmartAccount #
              PostFeeQuote c (networkAddresses env c) i #
              fst (try_catch
                     (executeOrderTransaction env
                        [\<lparr> tx_to = the (PAYMENTTOKEN env),
                            tx_data = Approve (networkAddresses env c)
                                        (1000000 + fee (fee_quote r)),
                            tx_value = 0 \<rparr>,
                         \<lparr> tx_to = networkAddresses env c,
                            tx_data = CreateOrder i (fee_quote r) (fee_quote_signature r),
                            tx_value = 0 \<rparr>]
                        (networkAddresses env c))
                     (\<lambda>error. console_log (CaughtErrorLine error))),
              Inr ()) \<and>
           ev \<in> set (fst (try_catch
                     (executeOrderTransaction env
                        [\<lparr> tx_to = the (PAYMENTTOKEN env),
                            tx_data = Approve (networkAddresses env c)
                                        (1000000 + fee (fee_quote r)),
                            tx_value = 0 \<rparr>,
                         \<lparr> tx_to = networkAddresses env c,
                            tx_data = CreateOrder i (fee_quote r) (fee_quote_signature r),
                            tx_value = 0 \<rparr>]
                        (networkAddresses env c))
                     (\<lambda>error. console_log (CaughtErrorLine error))))"
  using main_sponsored_shape[of env] assms
  by (auto simp add: configureOrder_sponsored_eval ret_def)

lemma main_sponsored_sent:
  assumes "SendTransactions txs \<in> set (fst (main_sponsored env))"
  shows "\<exists>c i r.
           PostFeeQuote c (networkAddresses env c) i \<in> set (fst (main_sponsored env)) \<and>
           postFeeQuote env c (networkAddresses env c) i = Inr r \<and>
           paymentTokenQuantity i = Finite 1000000 \<and>
           txs = [\<lparr> tx_to = the (PAYMENTTOKEN env),
                    tx_data = Approve (networkAddresses env c) (1000000 + fee (fee_quote r)),
                    tx_value = 0 \<rparr>,
                  \<lparr> tx_to = networkAddresses env c,
                    tx_data = CreateOrder i (fee_quote r) (fee_quote_signature r),
                    tx_value = 0 \<rparr>]"
proof -
  from main_sponsored_after_quote[OF assms] obtain c i r where
    q0: "postFeeQuote env c (networkAddresses env c) i = Inr r"
        "paymentTokenQuantity i = Finite 1000000"
    and whole: "main_sponsored env =
             (GetNetwork # SignerToSimpleSmartAccount #
              PostFeeQuote c (networkAddresses env c) i #
              fst (try_catch
                     (executeOrderTransaction env
                        [\<lparr> tx_to = the (PAYMENTTOKEN env),
                            tx_data = Approve (networkAddresses env c)
                                        (1000000 + fee (fee_quote r)),
                            tx_value = 0 \<rparr>,
                         \<lparr> tx_to = networkAddresses env c,
                            tx_data = CreateOrder i (fee_quote r) (fee_quote_signature r),
                            tx_value = 0 \<rparr>]
                        (networkAddresses env c))
                     (\<lambda>error. console_log (CaughtErrorLine error))),
              Inr ())"
    and mem: "SendTransactions txs \<in> set (fst (try_catch
                     (executeOrderTransaction env
                        [\<lparr> tx_to = the (PAYMENTTOKEN env),
                            tx_data = Approve (networkAddresses env c)
                                        (1000000 + fee (fee_quote r)),
                            tx_value = 0 \<rparr>,
                         \<lparr> tx_to = networkAddresses env c,
                            tx_data = CreateOrder i (fee_quote r) (fee_quote_signature r),
                            tx_value = 0 \<rparr>]
                        (networkAddresses env c))
                     (\<lambda>error. console_log (CaughtErrorLine error))))"
    by auto
  have "PostFeeQuote c (networkAddresses env c) i \<in> set (fst (main_sponsored env))"
    by (simp add: whole)
  moreover have "txs = [\<lparr> tx_to = the (PAYMENTTOKEN env),
                    tx_data = Approve (networkAddresses env c) (1000000 + fee (fee_quote r)),
                    tx_value = 0 \<rparr>,
                  \<lparr> tx_to = networkAddresses env c,
                    tx_data = CreateOrder i (fee_quote r) (fee_quote_signature r),
                    tx_value = 0 \<rparr>]"
    using mem by (auto simp add: try_catch_log in_caught_line dest!: executeOrderTransaction_events)
  ultimately show ?thesis using q0 by blast
qed

lemma createOrder_sent:
  assumes "SendTransactions txs \<in> set (fst (createOrder env pt p r amt opa))"
  shows "txs = [\<lparr> tx_to = pt, tx_data = Approve opa amt, tx_value = 0 \<rparr>,
                \<lparr> tx_to = opa, tx_data = CreateOrder p (fee_quote r) (fee_quote_signature r),
                   tx_value = 0 \<rparr>]"
  using assms
  by (auto simp add: createOrder_def Let_def dest!: executeOrderTransaction_events)

lemma submitOrder_multicall:
  assumes "Multicall cs \<in> set (fst (submitOrder env sp p r))"
  shows "cs = [sp, CreateOrder p (fee_quote r) (fee_quote_signature r)]"
  using assms by (auto simp add: submitOrder_def io_defs split: sum.splits)

section \<open>The runs in the concrete environment\<close>

lemma env_ok_fields:
  "PRIVATE_KEY_EOA env_ok = Some ''0xkey''"
  "PRIVATE_KEY env_ok = Some ''0xkey''"
  "RPC_URL env_ok = Some ''https://rpc.example''"
  "ASSETTOKEN env_ok = Some ''0xA55E7''"
  "PAYMENTTOKEN env_ok = Some ''0xU5DC''"
  "DINARI_API_KEY env_ok = Some ''dinari-key''"
  "PIMLICO_API_KEY env_ok = Some ''pimlico-key''"
  "now env_ok = 1700000000000"
  "signerAddress env_ok = ''0x5167E4''"
  "networkAddresses env_ok c = ''0xAbCd''"
  "orderCreatedTopic env_ok = ''0x70p1c''"
  "parseLog env_ok entry = Inr (7, ''0xACC0'')"
  "splitSignature env_ok bytes = \<lparr> sig_v = 27, sig_r = ''0x44'', sig_s = ''0x55'' \<rparr>"
  "getNetwork env_ok = Inr 11155111"
  "signerToSimpleSmartAccount env_ok = Inr ''0x5A''"
  "orderDecimalReduction env_ok a = Inr 3"
  "decimals env_ok = Inr 18"
  "postFeeQuote env_ok c a i = Inr quote_ok"
  "nonces env_ok a = Inr 0"
  "getBlockNumber env_ok = Inr 100"
  "getBlock env_ok n = Inr (Some 1700000000)"
  "tokenName env_ok = Inr ''USD Coin''"
  "tokenVersion env_ok = Inr ''2''"
  "signTypedData env_ok d m = Inr ''0x516''"
  "multicall env_ok cs = Inr ''0x7A''"
  "txWait env_ok h = Inr receipt_ok"
  "getOrderStatus env_ok k = Inr 1"
  "sendTransactions env_ok txs = Inr ''0x0b''"
  "bundlerPoll env_ok h = ArrivesAfter 12000 ''0x7A''"
  "getTransactionReceipt env_ok h = Inr receipt_ok"
  by (simp_all add: env_ok_def)

lemma toLowerCase_processor: "toLowerCase ''0xAbCd'' = ''0xabcd''"
  by code_simp

lemma toLowerCase_lower: "toLowerCase ''0xabcd'' = ''0xabcd''"
  by code_simp

lemma reportOrder_sponsored_env_ok:
  "reportOrder_sponsored env_ok ''0xAbCd'' receipt_ok =
     ([Console (OrderIdLine 7), Console (OrderAccountLine ''0xACC0''), GetOrderStatus 7,
       Console (OrderStatusLine 1)], Inr ())"
  by (simp add: reportOrder_sponsored_def io_defs env_ok_fields receipt_ok_def topic0_def
      toLowerCase_processor toLowerCase_lower)

lemma executeOrderTransaction_env_ok:
  "executeOrderTransaction env_ok txs ''0xAbCd'' =
     ([SendTransactions txs, WaitForUserOperationReceipt ''0x0b'' 60000,
       GetTransactionReceipt ''0x7A'', Console (OrderIdLine 7),
       Console (OrderAccountLine ''0xACC0''), GetOrderStatus 7, Console (OrderStatusLine 1)],
      Inr ())"
  by (simp add: executeOrderTransaction_def io_defs env_ok_fields
      waitForUserOperationReceipt_def reportOrder_sponsored_env_ok)

lemma main_sponsored_env_ok:
  "main_sponsored env_ok =
     ([GetNetwork, SignerToSimpleSmartAccount,
       PostFeeQuote 11155111 ''0xAbCd'' (order_ok ''0x5A''),
       SendTransactions batch_sponsored_ok,
       WaitForUserOperationReceipt ''0x0b'' 60000,
       GetTransactionReceipt ''0x7A'', Console (OrderIdLine 7),
       Console (OrderAccountLine ''0xACC0''), GetOrderStatus 7, Console (OrderStatusLine 1)],
      Inr ())"
  by (simp add: main_sponsored_def env_ok_fields missing_def configureOrder_sponsored_eval
      getFeeQuote_def computeTotalSpendAmount_def BigInt_of_number_numeral io_defs
      try_catch_def executeOrderTransaction_env_ok order_ok_def batch_sponsored_ok_def
      quote_ok_def)

lemma configurePermit_env_ok:
  "configurePermit env_ok ''0xU5DC'' ''0xAbCd'' 1002500 =
     ([Nonces ''0x5167E4'', GetBlockNumber, GetBlock 100, TokenName, TokenVersion, GetNetwork],
      Inr (domain_ok, message_ok))"
  by (simp add: configurePermit_def getContractVersion_def io_defs env_ok_fields
      round_double_numeral domain_ok_def message_ok_def)

lemma reportOrder_direct_env_ok:
  "reportOrder_direct env_ok receipt_ok =
     ([Console (OrderIdLine 7), Console (OrderAccountLine ''0xACC0''), GetOrderStatus 7,
       Console (OrderStatusLine 1)], Inr ())"
  by (simp add: reportOrder_direct_def io_defs env_ok_fields receipt_ok_def topic0_def)

lemma permitAndSubmit_direct_env_ok:
  "permitAndSubmit_direct env_ok ''0xU5DC'' ''0xAbCd'' (order_ok ''0x5167E4'') quote_ok 1002500 =
     ([Nonces ''0x5167E4'', GetBlockNumber, GetBlock 100, TokenName, TokenVersion, GetNetwork,
       SignTypedData domain_ok message_ok, Multicall batch_direct_ok, TxWait ''0x7A'',
       Console (OrderIdLine 7), Console (OrderAccountLine ''0xACC0''), GetOrderStatus 7,
       Console (OrderStatusLine 1)], Inr ())"
  by (simp add: permitAndSubmit_direct_def configurePermit_env_ok submitOrder_def io_defs
      env_ok_fields reportOrder_direct_env_ok batch_direct_ok_def message_ok_def)

lemma main_direct_env_ok:
  "main_direct env_ok =
     ([GetNetwork, PostFeeQuote 11155111 ''0xAbCd'' (order_ok ''0x5167E4''),
       Nonces ''0x5167E4'', GetBlockNumber, GetBlock 100, TokenName, TokenVersion, GetNetwork,
       SignTypedData domain_ok message_ok, Multicall batch_direct_ok, TxWait ''0x7A'',
       Console (OrderIdLine 7), Console (OrderAccountLine ''0xACC0''), GetOrderStatus 7,
       Console (OrderStatusLine 1)],
      Inr ())"
proof -
  have order: "configureOrder_direct env_ok ''0xA55E7'' ''0xU5DC'' = ret (order_ok ''0x5167E4'')"
    by (simp add: configureOrder_direct_eval env_ok_fields order_ok_def)
  have amount: "computeTotalSpendAmount (order_ok ''0x5167E4'') (fee (fee_quote quote_ok)) =
      ([], Inr 1002500)"
    using computeTotalSpendAmount_eval[of "order_ok ''0x5167E4''" 1000000 2500]
    by (simp add: order_ok_def quote_ok_def)
  show ?thesis
    by (simp add: main_direct_def env_ok_fields missing_def order getFeeQuote_def amount
        io_defs permitAndSubmit_direct_env_ok)
qed

section \<open>Reports, timeouts and failures\<close>

lemma reportOrder_found:
  "andThen (lift (Inr d))
     (\<lambda>decodedLog.
        let orderId' = fst decodedLog; orderAccount = snd decodedLog
        in andThen (console_log (OrderIdLine orderId'))
             (\<lambda>_. andThen (console_log (OrderAccountLine orderAccount))
                (\<lambda>_. andThen (await (GetOrderStatus orderId') (getOrderStatus env orderId'))
                   (\<lambda>orderStatus. console_log (OrderStatusLine orderStatus))))) =
   (Console (OrderIdLine (fst d)) # Console (OrderAccountLine (snd d)) #
    GetOrderStatus (fst d) #
    (case getOrderStatus env (fst d) of Inl e \<Rightarrow> [] | Inr s \<Rightarrow> [Console (OrderStatusLine s)]),
    case getOrderStatus env (fst d) of Inl e \<Rightarrow> Inl e | Inr s \<Rightarrow> Inr ())"
  by (simp add: io_defs split: sum.splits)








lemma executeOrderTransaction_timeout:
  assumes "sendTransactions env txs = Inr h"
    and "bundlerPoll env h = NeverArrives \<or>
         (\<exists>t th. bundlerPoll env h = ArrivesAfter t th \<and> 60000 < t)"
  shows "executeOrderTransaction env txs opa =
           ([SendTransactions txs, WaitForUserOperationReceipt h 60000], Inl TimeoutError)"
  using assms
  by (auto simp add: executeOrderTransaction_def io_defs waitForUserOperationReceipt_def)






































section \<open>The claims\<close>

text \<open>
  C9. Every order the three builders produce is a buy-side market order with
  \<open>sell = false\<close>, \<open>orderType = 0\<close>, \<open>assetTokenQuantity = 0\<close>, \<open>price = 0\<close> and
  \<open>tif = 1\<close>, whatever the environment and the arguments; building it calls nothing
  outside, so the sell-order precision validation is never reached. The builder of
  \<^verbatim>\<open>smart_account.ts\<close> can fail, but only with the range error of \<^verbatim>\<open>BigInt(amount)\<close>.
\<close>

theorem configureOrder_fixed_buy_market:
  "(\<exists>i. configureOrder_direct env a p = ([], Inr i) \<and> sell i = False \<and>
         orderType i = Finite 0 \<and> assetTokenQuantity i = Finite 0 \<and>
         price i = Finite 0 \<and> tif i = Finite 1) \<and>
   (\<exists>i. configureOrder_sponsored env rcp a p = ([], Inr i) \<and> sell i = False \<and>
         orderType i = Finite 0 \<and> assetTokenQuantity i = Finite 0 \<and>
         price i = Finite 0 \<and> tif i = Finite 1) \<and>
   fst (configureOrder_smart_account env rcp p amount) = [] \<and>
   (case snd (configureOrder_smart_account env rcp p amount) of
      Inl e \<Rightarrow> e = RangeError
    | Inr i \<Rightarrow> sell i = False \<and> orderType i = Finite 0 \<and> assetTokenQuantity i = Finite 0 \<and>
        price i = Finite 0 \<and> tif i = Finite 1)"
  by (auto simp add: configureOrder_direct_eval configureOrder_sponsored_eval
      configureOrder_smart_account_def BigInt_of_number_def io_defs
      split: number.splits sum.splits)

text \<open>
  C2, as amended. For an amount below \<open>2 ^ 53\<close> in magnitude and an allowed decimal
  reduction of at most 22: an amount that is not divisible by
  \<open>10 ^ allowedDecimalReduction\<close> is rejected with the error that names
  \<open>assetDecimals - allowedDecimalReduction\<close> as the maximum of decimals, after exactly
  the two contract reads \<^verbatim>\<open>orderDecimalReduction\<close> and \<^verbatim>\<open>decimals\<close> and before any
  other call.
\<close>

theorem validateSellOrderPrecision_rejects_after_reads:
  assumes "orderDecimalReduction env asset = Inr r" and "decimals env = Inr d"
    and "r \<le> 22" and "d < 256" and "\<bar>amount\<bar> < 2 ^ 53" and "\<not> 10 ^ r dvd amount"
  shows "validateSellOrderPrecision env asset amount =
           ([OrderDecimalReduction asset, Decimals],
            Inl (PrecisionError (Finite (of_int (int d - int r)))))"
  using validateSellOrderPrecision_eval[OF assms(1-5)] assms(6) by simp

text \<open>The amended C2 at work: 1001 units, reduction 3, 18 decimals.\<close>

theorem validateSellOrderPrecision_rejects_after_reads_witness:
  "orderDecimalReduction env_ok ''0xA55E7'' = Inr 3 \<and> decimals env_ok = Inr 18 \<and>
   (3::nat) \<le> 22 \<and> (18::nat) < 256 \<and> \<bar>1001::int\<bar> < 2 ^ 53 \<and> \<not> (10::int) ^ 3 dvd 1001 \<and>
   validateSellOrderPrecision env_ok ''0xA55E7'' 1001 =
     ([OrderDecimalReduction ''0xA55E7'', Decimals], Inl (PrecisionError (Finite 15)))"
  using validateSellOrderPrecision_rejects_after_reads[of env_ok "''0xA55E7''" 3 18 1001]
  by (simp add: env_ok_def)

text \<open>
  C2 as stated fails: with 18 decimals and a reduction of 3, the amount 1000 is not
  divisible by \<open>10 ^ (18 - 3)\<close> and is accepted; and the amount 1001 is rejected only
  after two calls to the chain.
\<close>

theorem validateSellOrderPrecision_counterexample:
  "orderDecimalReduction env_ok ''0xA55E7'' = Inr 3 \<and> decimals env_ok = Inr 18 \<and>
   \<not> (10::int) ^ (18 - 3) dvd 1000 \<and>
   validateSellOrderPrecision env_ok ''0xA55E7'' 1000 =
     ([OrderDecimalReduction ''0xA55E7''], Inr ()) \<and>
   validateSellOrderPrecision env_ok ''0xA55E7'' 1001 =
     ([OrderDecimalReduction ''0xA55E7'', Decimals], Inl (PrecisionError (Finite 15)))"
  using validateSellOrderPrecision_eval[of env_ok "''0xA55E7''" 3 18 1000]
    validateSellOrderPrecision_eval[of env_ok "''0xA55E7''" 3 18 1001]
  by (simp add: env_ok_def)

text \<open>
  C6, as amended. The fee summation is exact integer arithmetic. The order quantity is
  stored in the intent as a double and the precision modulus is computed on doubles;
  for a quantity below \<open>2 ^ 53\<close> in magnitude and a reduction of at most 22 both agree
  with exact integer arithmetic. The default amount \<^verbatim>\<open>100 * 10 ** 6\<close> is
  \<open>100000000\<close> and the amount \<^verbatim>\<open>BigInt(0.1 * 10 ** 18)\<close> of \<^verbatim>\<open>sendToken\<close>, a
  floating-point product, is \<open>10 ^ 17\<close>.
\<close>

theorem amounts_exact_in_safe_range:
  assumes "\<bar>n\<bar> < 2 ^ 53" and "r \<le> 22"
  shows "Number_of_bigint n = Finite (of_int n) \<and>
         computeTotalSpendAmount (p\<lparr>paymentTokenQuantity := Number_of_bigint n\<rparr>) fees =
           ([], Inr (n + fees)) \<and>
         js_ne_zero (js_rem (Number_of_bigint n) (js_pow 10 r)) = (\<not> 10 ^ r dvd n) \<and>
         default_amount = Finite 100000000 \<and>
         BigInt_of_number (js_mul (round_double (1 / 10)) (js_pow 10 18)) = Inr (10 ^ 17)"
proof -
  have stored: "Number_of_bigint n = Finite (of_int n)"
    by (rule Number_of_bigint_exact[OF assms(1)])
  have "paymentTokenQuantity (p\<lparr>paymentTokenQuantity := Number_of_bigint n\<rparr>) = Finite (of_int n)"
    by (simp add: stored)
  then have summed:
    "computeTotalSpendAmount (p\<lparr>paymentTokenQuantity := Number_of_bigint n\<rparr>) fees =
       ([], Inr (n + fees))"
    by (rule computeTotalSpendAmount_eval)
  have modulus: "js_ne_zero (js_rem (Number_of_bigint n) (js_pow 10 r)) = (\<not> 10 ^ r dvd n)"
    by (rule precision_test_exact[OF assms])
  show ?thesis
    using stored summed modulus default_amount_eval tokenAmount_eval by blast
qed

text \<open>The amended C6 at work: the quantity 1000000, the fee 2500, reduction 3.\<close>

theorem amounts_exact_in_safe_range_witness:
  "\<bar>1000000::int\<bar> < 2 ^ 53 \<and> (3::nat) \<le> 22 \<and>
   Number_of_bigint 1000000 = Finite 1000000 \<and>
   computeTotalSpendAmount
     \<lparr> requestTimestamp = Finite 0, recipient = ''0x5A'', assetToken = ''0xA55E7'',
        paymentToken = ''0xU5DC'', sell = False, orderType = Finite 0,
        assetTokenQuantity = Finite 0, paymentTokenQuantity = Finite 1000000,
        price = Finite 0, tif = Finite 1 \<rparr> 2500 = ([], Inr 1002500) \<and>
   \<not> js_ne_zero (js_rem (Finite 1000000) (js_pow 10 3))"
proof -
  have h1: "\<bar>1000000::int\<bar> < 2 ^ 53" by simp
  have h2: "(3::nat) \<le> 22" by simp
  note w = amounts_exact_in_safe_range[OF h1 h2,
      of "\<lparr> requestTimestamp = Finite 0, recipient = ''0x5A'', assetToken = ''0xA55E7'',
            paymentToken = ''0xU5DC'', sell = False, orderType = Finite 0,
            assetTokenQuantity = Finite 0, paymentTokenQuantity = Finite 0,
            price = Finite 0, tif = Finite 1 \<rparr>" 2500]
  have stored: "Number_of_bigint 1000000 = Finite 1000000" using w by simp
  show ?thesis using h1 h2 w[unfolded stored] stored by simp
qed

text \<open>
  C6 as stated fails: \<^verbatim>\<open>Number(orderAmount)\<close> rounds \<open>10 ^ 18 + 1\<close> to \<open>10 ^ 18\<close>, so the
  precision check accepts an amount that \<open>10 ^ 3\<close> does not divide.
\<close>

theorem amounts_not_exact_counterexample:
  "Number_of_bigint 1000000000000000001 = Finite 1000000000000000000 \<and>
   \<not> (10::int) ^ 3 dvd 1000000000000000001 \<and>
   orderDecimalReduction env_ok ''0xA55E7'' = Inr 3 \<and>
   validateSellOrderPrecision env_ok ''0xA55E7'' 1000000000000000001 =
     ([OrderDecimalReduction ''0xA55E7''], Inr ())"
  using Number_of_bigint_rounds validate_accepts_rounded[of "''0xA55E7''"]
  by (simp add: env_ok_def)

text \<open>
  C1. The total spend amount is the quantity of the intent plus the quoted fee, as a sum
  of unbounded integers: whenever the quantity field holds the integer \<open>q\<close>, the
  computation yields \<open>q + fees\<close> and nothing else. That amount is what is passed on, in
  every run: the self-permit call of the direct script's batch and the approve call of
  the sponsored script's batch carry the quantity that was sent for quotation plus the
  fee that was quoted, and \<^verbatim>\<open>createOrder\<close> of \<^verbatim>\<open>smart_account.ts\<close> approves the
  amount it is given.
\<close>

theorem total_spend_is_quantity_plus_fee:
  "(paymentTokenQuantity p = Finite (of_int q) \<longrightarrow>
      computeTotalSpendAmount p fees = ([], Inr (q + fees))) \<and>
   (Multicall cs \<in> set (fst (main_direct env)) \<longrightarrow>
      (\<exists>c i r n t ow dl sv sr ss cr.
         PostFeeQuote c (networkAddresses env c) i \<in> set (fst (main_direct env)) \<and>
         postFeeQuote env c (networkAddresses env c) i = Inr r \<and>
         paymentTokenQuantity i = Finite (of_int n) \<and>
         cs = [SelfPermit t ow (n + fee (fee_quote r)) dl sv sr ss, cr])) \<and>
   (SendTransactions txs \<in> set (fst (main_sponsored env)) \<longrightarrow>
      (\<exists>c i r n s cr.
         PostFeeQuote c (networkAddresses env c) i \<in> set (fst (main_sponsored env)) \<and>
         postFeeQuote env c (networkAddresses env c) i = Inr r \<and>
         paymentTokenQuantity i = Finite (of_int n) \<and>
         map tx_data txs = [Approve s (n + fee (fee_quote r)), cr])) \<and>
   (SendTransactions txs' \<in> set (fst (createOrder env pt p' r' amt opa)) \<longrightarrow>
      (\<exists>cr. map tx_data txs' = [Approve opa amt, cr]))"
proof (intro conjI impI)
  assume "paymentTokenQuantity p = Finite (of_int q)"
  then show "computeTotalSpendAmount p fees = ([], Inr (q + fees))"
    by (rule computeTotalSpendAmount_eval)
next
  assume "Multicall cs \<in> set (fst (main_direct env))"
  from main_direct_multicall[OF this] obtain c i r d and m :: PermitMessage and sg where
    quoted: "PostFeeQuote c (networkAddresses env c) i \<in> set (fst (main_direct env))"
      "postFeeQuote env c (networkAddresses env c) i = Inr r"
    and quantity: "paymentTokenQuantity i = Finite 1000000"
    and amount: "permit_value m = 1000000 + fee (fee_quote r)"
    and cs: "cs = [SelfPermit (the (PAYMENTTOKEN env)) (owner m) (permit_value m)
             (permit_deadline m) (sig_v (splitSignature env sg))
             (sig_r (splitSignature env sg)) (sig_s (splitSignature env sg)),
           CreateOrder i (fee_quote r) (fee_quote_signature r)]"
    by blast
  have "paymentTokenQuantity i = Finite (of_int 1000000)"
    using quantity by simp
  moreover have "cs = [SelfPermit (the (PAYMENTTOKEN env)) (owner m)
             (1000000 + fee (fee_quote r))
             (permit_deadline m) (sig_v (splitSignature env sg))
             (sig_r (splitSignature env sg)) (sig_s (splitSignature env sg)),
           CreateOrder i (fee_quote r) (fee_quote_signature r)]"
    using cs amount by simp
  ultimately show "\<exists>c i r n t ow dl sv sr ss cr.
         PostFeeQuote c (networkAddresses env c) i \<in> set (fst (main_direct env)) \<and>
         postFeeQuote env c (networkAddresses env c) i = Inr r \<and>
         paymentTokenQuantity i = Finite (of_int n) \<and>
         cs = [SelfPermit t ow (n + fee (fee_quote r)) dl sv sr ss, cr]"
    using quoted by blast
next
  assume "SendTransactions txs \<in> set (fst (main_sponsored env))"
  from main_sponsored_sent[OF this] obtain c i r where
    quoted: "PostFeeQuote c (networkAddresses env c) i \<in> set (fst (main_sponsored env))"
      "postFeeQuote env c (networkAddresses env c) i = Inr r"
    and quantity: "paymentTokenQuantity i = Finite 1000000"
    and txs: "txs = [\<lparr> tx_to = the (PAYMENTTOKEN env),
                    tx_data = Approve (networkAddresses env c) (1000000 + fee (fee_quote r)),
                    tx_value = 0 \<rparr>,
                  \<lparr> tx_to = networkAddresses env c,
                    tx_data = CreateOrder i (fee_quote r) (fee_quote_signature r),
                    tx_value = 0 \<rparr>]"
    by blast
  have "paymentTokenQuantity i = Finite (of_int 1000000)"
    using quantity by simp
  moreover have "map tx_data txs =
      [Approve (networkAddresses env c) (1000000 + fee (fee_quote r)),
       CreateOrder i (fee_quote r) (fee_quote_signature r)]"
    by (simp add: txs)
  ultimately show "\<exists>c i r n s cr.
         PostFeeQuote c (networkAddresses env c) i \<in> set (fst (main_sponsored env)) \<and>
         postFeeQuote env c (networkAddresses env c) i = Inr r \<and>
         paymentTokenQuantity i = Finite (of_int n) \<and>
         map tx_data txs = [Approve s (n + fee (fee_quote r)), cr]"
    using quoted by (intro exI conjI)
next
  assume "SendTransactions txs' \<in> set (fst (createOrder env pt p' r' amt opa))"
  from createOrder_sent[OF this]
  show "\<exists>cr. map tx_data txs' = [Approve opa amt, cr]" by simp
qed

text \<open>C1 at work: a quantity of 1 000 000 and a fee of 2 500 give 1 002 500.\<close>

theorem total_spend_is_quantity_plus_fee_witness:
  "paymentTokenQuantity (order_ok ''0x5A'') = Finite (of_int 1000000) \<and>
   computeTotalSpendAmount (order_ok ''0x5A'') 2500 = ([], Inr 1002500) \<and>
   Multicall batch_direct_ok \<in> set (fst (main_direct env_ok)) \<and>
   SendTransactions batch_sponsored_ok \<in> set (fst (main_sponsored env_ok)) \<and>
   SendTransactions batch_sponsored_ok
     \<in> set (fst (createOrder env_ok ''0xU5DC'' (order_ok ''0x5A'') quote_ok 1002500 ''0xAbCd'')) \<and>
   (\<exists>cr. map tx_data batch_sponsored_ok = [Approve ''0xAbCd'' 1002500, cr])"
proof -
  have h1: "paymentTokenQuantity (order_ok ''0x5A'') = Finite (of_int 1000000)"
    by (simp add: order_ok_def)
  have h2: "Multicall batch_direct_ok \<in> set (fst (main_direct env_ok))"
    by (simp add: main_direct_env_ok)
  have h3: "SendTransactions batch_sponsored_ok \<in> set (fst (main_sponsored env_ok))"
    by (simp add: main_sponsored_env_ok)
  have h4: "SendTransactions batch_sponsored_ok
     \<in> set (fst (createOrder env_ok ''0xU5DC'' (order_ok ''0x5A'') quote_ok 1002500 ''0xAbCd''))"
    by (simp add: createOrder_def executeOrderTransaction_env_ok batch_sponsored_ok_def)
  note w = total_spend_is_quantity_plus_fee[of "order_ok ''0x5A''" 1000000 2500
      batch_direct_ok env_ok batch_sponsored_ok batch_sponsored_ok "''0xU5DC''"
      "order_ok ''0x5A''" quote_ok 1002500 "''0xAbCd''"]
  from w h1 have c1: "computeTotalSpendAmount (order_ok ''0x5A'') 2500 = ([], Inr 1002500)"
    by simp
  from w h4 have c2: "\<exists>cr. map tx_data batch_sponsored_ok = [Approve ''0xAbCd'' 1002500, cr]"
    by blast
  show ?thesis using h1 h2 h3 h4 c1 c2 by blast
qed

text \<open>
  C3. Every batch submitted for order creation holds exactly two calls, the
  authorization (self-permit on the direct path, approve on the sponsored path) first
  and the order creation second: in \<^verbatim>\<open>submitOrder\<close> and every run of the direct
  \<^verbatim>\<open>main\<close>, in every run of the sponsored \<^verbatim>\<open>main\<close>, and in \<^verbatim>\<open>createOrder\<close> of
  \<^verbatim>\<open>smart_account.ts\<close>.
\<close>

theorem batch_is_authorization_then_creation:
  "(Multicall cs \<in> set (fst (submitOrder env selfPermitData p r)) \<longrightarrow>
      cs = [selfPermitData, CreateOrder p (fee_quote r) (fee_quote_signature r)]) \<and>
   (Multicall cs' \<in> set (fst (main_direct env)) \<longrightarrow>
      (\<exists>t ow v dl sv sr ss i q g. cs' = [SelfPermit t ow v dl sv sr ss, CreateOrder i q g])) \<and>
   (SendTransactions txs \<in> set (fst (main_sponsored env)) \<longrightarrow>
      (\<exists>s v i q g. map tx_data txs = [Approve s v, CreateOrder i q g])) \<and>
   (SendTransactions txs' \<in> set (fst (createOrder env pt p r amt opa)) \<longrightarrow>
      map tx_data txs' = [Approve opa amt, CreateOrder p (fee_quote r) (fee_quote_signature r)])"
proof (intro conjI impI)
  assume "Multicall cs \<in> set (fst (submitOrder env selfPermitData p r))"
  then show "cs = [selfPermitData, CreateOrder p (fee_quote r) (fee_quote_signature r)]"
    by (rule submitOrder_multicall)
next
  assume "Multicall cs' \<in> set (fst (main_direct env))"
  from main_direct_multicall[OF this]
  show "\<exists>t ow v dl sv sr ss i q g. cs' = [SelfPermit t ow v dl sv sr ss, CreateOrder i q g]"
    by blast
next
  assume "SendTransactions txs \<in> set (fst (main_sponsored env))"
  from main_sponsored_sent[OF this] obtain c i and r' :: FeeQuoteResponse where
    "txs = [\<lparr> tx_to = the (PAYMENTTOKEN env),
              tx_data = Approve (networkAddresses env c) (1000000 + fee (fee_quote r')),
              tx_value = 0 \<rparr>,
            \<lparr> tx_to = networkAddresses env c,
              tx_data = CreateOrder i (fee_quote r') (fee_quote_signature r'),
              tx_value = 0 \<rparr>]"
    by blast
  then have "map tx_data txs =
      [Approve (networkAddresses env c) (1000000 + fee (fee_quote r')),
       CreateOrder i (fee_quote r') (fee_quote_signature r')]"
    by simp
  then show "\<exists>s v i q g. map tx_data txs = [Approve s v, CreateOrder i q g]"
    by (intro exI)
next
  assume "SendTransactions txs' \<in> set (fst (createOrder env pt p r amt opa))"
  from createOrder_sent[OF this]
  show "map tx_data txs' = [Approve opa amt, CreateOrder p (fee_quote r) (fee_quote_signature r)]"
    by simp
qed

text \<open>C3 at work: the two batches of the run in which everything answers.\<close>

theorem batch_is_authorization_then_creation_witness:
  "Multicall batch_direct_ok \<in> set (fst (main_direct env_ok)) \<and>
   SendTransactions batch_sponsored_ok \<in> set (fst (main_sponsored env_ok)) \<and>
   (\<exists>t ow v dl sv sr ss i q g.
      batch_direct_ok = [SelfPermit t ow v dl sv sr ss, CreateOrder i q g]) \<and>
   (\<exists>s v i q g. map tx_data batch_sponsored_ok = [Approve s v, CreateOrder i q g])"
proof -
  have h1: "Multicall batch_direct_ok \<in> set (fst (main_direct env_ok))"
    by (simp add: main_direct_env_ok)
  have h2: "SendTransactions batch_sponsored_ok \<in> set (fst (main_sponsored env_ok))"
    by (simp add: main_sponsored_env_ok)
  note w = batch_is_authorization_then_creation[of _ env_ok _ _ _ batch_direct_ok
      batch_sponsored_ok]
  show ?thesis using w h1 h2 by blast
qed

text \<open>
  C4. On the direct path, in every run: the \<open>value\<close> of each permit message that is
  signed is the quantity sent for quotation plus the quoted fee, and the self-permit
  call of each batch carries the owner, value and deadline of a message that was signed
  in that run, with the parts of its signature.
\<close>

theorem permit_value_is_total_spend:
  "(SignTypedData d m \<in> set (fst (main_direct env)) \<longrightarrow>
      (\<exists>c i r n.
         PostFeeQuote c (networkAddresses env c) i \<in> set (fst (main_direct env)) \<and>
         postFeeQuote env c (networkAddresses env c) i = Inr r \<and>
         paymentTokenQuantity i = Finite (of_int n) \<and>
         permit_value m = n + fee (fee_quote r))) \<and>
   (Multicall cs \<in> set (fst (main_direct env)) \<longrightarrow>
      (\<exists>d' m' sg cr.
         SignTypedData d' m' \<in> set (fst (main_direct env)) \<and>
         signTypedData env d' m' = Inr sg \<and>
         cs = [SelfPermit (the (PAYMENTTOKEN env)) (owner m') (permit_value m')
                 (permit_deadline m') (sig_v (splitSignature env sg))
                 (sig_r (splitSignature env sg)) (sig_s (splitSignature env sg)), cr]))"
proof (intro conjI impI)
  assume "SignTypedData d m \<in> set (fst (main_direct env))"
  from main_direct_signed[OF this] obtain c i r where
    quoted: "PostFeeQuote c (networkAddresses env c) i \<in> set (fst (main_direct env))"
      "postFeeQuote env c (networkAddresses env c) i = Inr r"
    and quantity: "paymentTokenQuantity i = Finite 1000000"
    and amount: "permit_value m = 1000000 + fee (fee_quote r)"
    by blast
  have "paymentTokenQuantity i = Finite (of_int 1000000)"
    using quantity by simp
  then show "\<exists>c i r n.
         PostFeeQuote c (networkAddresses env c) i \<in> set (fst (main_direct env)) \<and>
         postFeeQuote env c (networkAddresses env c) i = Inr r \<and>
         paymentTokenQuantity i = Finite (of_int n) \<and>
         permit_value m = n + fee (fee_quote r)"
    using quoted amount by blast
next
  assume "Multicall cs \<in> set (fst (main_direct env))"
  from main_direct_multicall[OF this]
  show "\<exists>d' m' sg cr.
         SignTypedData d' m' \<in> set (fst (main_direct env)) \<and>
         signTypedData env d' m' = Inr sg \<and>
         cs = [SelfPermit (the (PAYMENTTOKEN env)) (owner m') (permit_value m')
                 (permit_deadline m') (sig_v (splitSignature env sg))
                 (sig_r (splitSignature env sg)) (sig_s (splitSignature env sg)), cr]"
    by blast
qed

text \<open>C4 at work: the signed value of the run in which everything answers is 1 002 500.\<close>

theorem permit_value_is_total_spend_witness:
  "SignTypedData domain_ok message_ok \<in> set (fst (main_direct env_ok)) \<and>
   Multicall batch_direct_ok \<in> set (fst (main_direct env_ok)) \<and>
   permit_value message_ok = 1002500 \<and>
   (\<exists>c i r n.
      PostFeeQuote c (networkAddresses env_ok c) i \<in> set (fst (main_direct env_ok)) \<and>
      postFeeQuote env_ok c (networkAddresses env_ok c) i = Inr r \<and>
      paymentTokenQuantity i = Finite (of_int n) \<and>
      permit_value message_ok = n + fee (fee_quote r))"
proof -
  have h1: "SignTypedData domain_ok message_ok \<in> set (fst (main_direct env_ok))"
    by (simp add: main_direct_env_ok)
  have h2: "Multicall batch_direct_ok \<in> set (fst (main_direct env_ok))"
    by (simp add: main_direct_env_ok)
  have h3: "permit_value message_ok = 1002500"
    by (simp add: message_ok_def)
  note w = permit_value_is_total_spend[of domain_ok message_ok env_ok batch_direct_ok]
  show ?thesis using w h1 h2 h3 by blast
qed




text \<open>
  C7. On the sponsored path the wait for the user-operation receipt is always made with
  a timeout of 60 000 ms; when the receipt is not there within that time (it never comes,
  or comes later), \<^verbatim>\<open>executeOrderTransaction\<close> ends with the timeout error right after
  the wait, and \<^verbatim>\<open>getTransactionReceipt\<close> is not called.
\<close>

theorem receipt_wait_times_out:
  assumes "sendTransactions env txs = Inr h"
    and "bundlerPoll env h = NeverArrives \<or>
         (\<exists>t th. bundlerPoll env h = ArrivesAfter t th \<and> 60000 < t)"
  shows "executeOrderTransaction env txs opa =
           ([SendTransactions txs, WaitForUserOperationReceipt h 60000], Inl TimeoutError) \<and>
         (\<forall>th. GetTransactionReceipt th \<notin> set (fst (executeOrderTransaction env txs opa))) \<and>
         (\<forall>ev \<in> set (fst (executeOrderTransaction env' txs' opa')).
            \<forall>h' t. ev = WaitForUserOperationReceipt h' t \<longrightarrow> t = 60000)"
proof -
  have run: "executeOrderTransaction env txs opa =
           ([SendTransactions txs, WaitForUserOperationReceipt h 60000], Inl TimeoutError)"
    using assms by (rule executeOrderTransaction_timeout)
  have bound: "\<forall>ev \<in> set (fst (executeOrderTransaction env' txs' opa')).
            \<forall>h' t. ev = WaitForUserOperationReceipt h' t \<longrightarrow> t = 60000"
    using executeOrderTransaction_events[of _ env' txs' opa'] by auto
  show ?thesis using bound by (simp add: run)
qed

text \<open>C7 at work: a receipt that takes ninety seconds.\<close>

theorem receipt_wait_times_out_witness:
  "sendTransactions env_slow batch_sponsored_ok = Inr ''0x0b'' \<and>
   bundlerPoll env_slow ''0x0b'' = ArrivesAfter 90000 ''0x7A'' \<and> (60000::nat) < 90000 \<and>
   executeOrderTransaction env_slow batch_sponsored_ok ''0xAbCd'' =
     ([SendTransactions batch_sponsored_ok, WaitForUserOperationReceipt ''0x0b'' 60000],
      Inl TimeoutError)"
proof -
  have h1: "sendTransactions env_slow batch_sponsored_ok = Inr ''0x0b''"
    by (simp add: env_slow_def env_ok_def)
  have h2: "bundlerPoll env_slow ''0x0b'' = ArrivesAfter 90000 ''0x7A''"
    by (simp add: env_slow_def env_ok_def)
  have h3: "bundlerPoll env_slow ''0x0b'' = NeverArrives \<or>
         (\<exists>t th. bundlerPoll env_slow ''0x0b'' = ArrivesAfter t th \<and> 60000 < t)"
    by (simp add: h2)
  note w = receipt_wait_times_out[OF h1 h3, of "''0xAbCd''"]
  show ?thesis using h1 h2 w by simp
qed






end
